theory Spec2Isabelle
  imports Complex_Main "HOL-Library.AList" "HOL-Library.Multiset"
begin

section \<open>Numbers and the three.js values the simulation uses\<close>

text \<open>
  A JavaScript \<^verbatim>\<open>number\<close> is modelled twice. In this section and the sections on the
  entities, the manager, the population and the heap it is a real: the statements about
  the update order, the neighbour query, the variable maps, the orientation, the
  population and the copies are about exact arithmetic, and say nothing about rounding,
  \<open>NaN\<close> or infinities. The statements about the numbers that the integrator stores (the
  speed cap, the rescaling, the zero time step) depend on rounding: they are made on the
  double-precision model of the section on doubles below, where \<open>Entity_update_fp\<close> is
  \<^verbatim>\<open>Entity.update\<close> with every operation rounded. The vector and
  quaternion operations are the ones of the three.js library the code calls
  (\<^verbatim>\<open>Vector3.add\<close>, \<^verbatim>\<open>multiplyScalar\<close>, \<^verbatim>\<open>length\<close>, \<^verbatim>\<open>normalize\<close>, \<^verbatim>\<open>distanceTo\<close>,
  \<^verbatim>\<open>Quaternion.setFromUnitVectors\<close>), written here as functions on values: a method that
  mutates its receiver returns the new value of the receiver.
\<close>

record Vector3 =
  vec_x :: real
  vec_y :: real
  vec_z :: real

abbreviation Vector3 :: "real \<Rightarrow> real \<Rightarrow> real \<Rightarrow> Vector3" where
  "Vector3 a b c \<equiv> \<lparr>vec_x = a, vec_y = b, vec_z = c\<rparr>"

definition clone :: "Vector3 \<Rightarrow> Vector3" where
  "clone v = v"

definition add :: "Vector3 \<Rightarrow> Vector3 \<Rightarrow> Vector3" where
  "add v w = \<lparr>vec_x = vec_x v + vec_x w, vec_y = vec_y v + vec_y w, vec_z = vec_z v + vec_z w\<rparr>"

definition multiplyScalar :: "Vector3 \<Rightarrow> real \<Rightarrow> Vector3" where
  "multiplyScalar v s = \<lparr>vec_x = vec_x v * s, vec_y = vec_y v * s, vec_z = vec_z v * s\<rparr>"

definition divideScalar :: "Vector3 \<Rightarrow> real \<Rightarrow> Vector3" where
  "divideScalar v s = multiplyScalar v (1 / s)"

definition length_vec :: "Vector3 \<Rightarrow> real" where
  "length_vec v = sqrt (vec_x v * vec_x v + vec_y v * vec_y v + vec_z v * vec_z v)"

text \<open>\<^verbatim>\<open>normalize()\<close> is \<^verbatim>\<open>divideScalar(this.length() || 1)\<close>: the zero vector stays zero.\<close>

definition normalize_vec :: "Vector3 \<Rightarrow> Vector3" where
  "normalize_vec v = divideScalar v (if length_vec v = 0 then 1 else length_vec v)"

definition distanceTo :: "Vector3 \<Rightarrow> Vector3 \<Rightarrow> real" where
  "distanceTo v w =
     (let dx = vec_x v - vec_x w; dy = vec_y v - vec_y w; dz = vec_z v - vec_z w
      in sqrt (dx * dx + dy * dy + dz * dz))"

definition dot :: "Vector3 \<Rightarrow> Vector3 \<Rightarrow> real" where
  "dot v w = vec_x v * vec_x w + vec_y v * vec_y w + vec_z v * vec_z w"

record Quaternion =
  quat_x :: real
  quat_y :: real
  quat_z :: real
  quat_w :: real

definition identity_quat :: Quaternion where
  "identity_quat = \<lparr>quat_x = 0, quat_y = 0, quat_z = 0, quat_w = 1\<rparr>"

definition length_quat :: "Quaternion \<Rightarrow> real" where
  "length_quat q = sqrt (quat_x q * quat_x q + quat_y q * quat_y q + quat_z q * quat_z q + quat_w q * quat_w q)"

definition normalize_quat :: "Quaternion \<Rightarrow> Quaternion" where
  "normalize_quat q =
     (let l = length_quat q
      in if l = 0 then identity_quat
         else \<lparr>quat_x = quat_x q * (1 / l), quat_y = quat_y q * (1 / l),
               quat_z = quat_z q * (1 / l), quat_w = quat_w q * (1 / l)\<rparr>)"

definition EPSILON :: real where
  "EPSILON = 1 / 2 ^ 52"

definition setFromUnitVectors :: "Vector3 \<Rightarrow> Vector3 \<Rightarrow> Quaternion" where
  "setFromUnitVectors vFrom vTo =
     (let r = dot vFrom vTo + 1
      in normalize_quat
           (if r < EPSILON then
              (if \<bar>vec_x vFrom\<bar> > \<bar>vec_z vFrom\<bar>
               then \<lparr>quat_x = - vec_y vFrom, quat_y = vec_x vFrom, quat_z = 0, quat_w = 0\<rparr>
               else \<lparr>quat_x = 0, quat_y = - vec_z vFrom, quat_z = vec_y vFrom, quat_w = 0\<rparr>)
            else \<lparr>quat_x = vec_y vFrom * vec_z vTo - vec_z vFrom * vec_y vTo,
                  quat_y = vec_z vFrom * vec_x vTo - vec_x vFrom * vec_z vTo,
                  quat_z = vec_x vFrom * vec_y vTo - vec_y vFrom * vec_x vTo,
                  quat_w = r\<rparr>))"

text \<open>
  A \<^verbatim>\<open>Map<string, number>\<close> is the list of its entries in insertion order, with distinct
  keys. \<^verbatim>\<open>Map.set\<close> replaces the value of a key that is present, in place, and appends
  an entry otherwise: this is \<^const>\<open>AList.update\<close>.
\<close>

type_synonym VariableMap = "(string \<times> real) list"

section \<open>src/types/index.ts\<close>

record EntityState =
  state_position :: Vector3
  state_velocity :: Vector3
  state_randomVariables :: VariableMap

record NearbyEntity =
  nearby_position :: Vector3
  nearby_velocity :: Vector3
  distance :: real

datatype SurfaceType = field | lake | hedgerow | tree

record TerrainInfo =
  terrain_height :: real
  terrain_type :: SurfaceType
  terrain_normal :: Vector3

record MovementInput =
  currentState :: EntityState
  nearbyEntities :: "NearbyEntity list"
  terrainAhead :: "TerrainInfo list"
  deltaTime :: real

record MovementOutput =
  acceleration :: Vector3
  shouldUpdateRandomVariables :: "VariableMap option"

type_synonym MovementFunction = "MovementInput \<Rightarrow> MovementOutput"

section \<open>src/entities/Entity.ts\<close>

text \<open>Of the mesh, the model keeps what the code writes: its position and its quaternion.\<close>

record Mesh =
  mesh_position :: Vector3
  mesh_quaternion :: Quaternion

record Entity =
  position :: Vector3
  velocity :: Vector3
  randomVariables :: VariableMap
  mesh :: Mesh

definition createMesh :: Mesh where
  "createMesh = \<lparr>mesh_position = Vector3 0 0 0, mesh_quaternion = identity_quat\<rparr>"

definition new_Entity :: "Vector3 \<Rightarrow> Vector3 option \<Rightarrow> Entity" where
  "new_Entity pos initialVelocity =
     \<lparr>position = clone pos,
      velocity = (case initialVelocity of Some v \<Rightarrow> clone v | None \<Rightarrow> Vector3 0 0 0),
      randomVariables = [],
      mesh = createMesh\<lparr>mesh_position := clone pos\<rparr>\<rparr>"

definition getState :: "Entity \<Rightarrow> EntityState" where
  "getState e =
     \<lparr>state_position = clone (position e),
      state_velocity = clone (velocity e),
      state_randomVariables = randomVariables e\<rparr>"

definition getPosition :: "Entity \<Rightarrow> Vector3" where
  "getPosition e = clone (position e)"

definition getVelocity :: "Entity \<Rightarrow> Vector3" where
  "getVelocity e = clone (velocity e)"

text \<open>
  \<^verbatim>\<open>Entity.update\<close> over the reals: the statements, their order and the two branches (the
  speed cap, the orientation of the mesh) are those of the source, and the arithmetic is
  exact. It is used for what does not depend on rounding: which state a callback reads
  and writes, and which branch orients the mesh. What the code stores once every operation
  is rounded is \<open>Entity_update_fp\<close>, in the section on doubles.
\<close>

definition maxSpeed :: real where
  "maxSpeed = 50"

definition Entity_update :: "Entity \<Rightarrow> Vector3 \<Rightarrow> real \<Rightarrow> Entity" where
  "Entity_update e acc dt =
     (let v1 = add (velocity e) (multiplyScalar (clone acc) dt);
          v2 = (if length_vec v1 > maxSpeed
                then multiplyScalar (normalize_vec v1) maxSpeed else v1);
          p1 = add (position e) (multiplyScalar (clone v2) dt);
          m1 = (mesh e)\<lparr>mesh_position := p1\<rparr>;
          m2 = (if length_vec v2 > 0.1
                then m1\<lparr>mesh_quaternion :=
                          setFromUnitVectors (Vector3 0 1 0) (normalize_vec (clone v2))\<rparr>
                else m1)
      in e\<lparr>velocity := v2, position := p1, mesh := m2\<rparr>)"

definition updateRandomVariables :: "Entity \<Rightarrow> VariableMap \<Rightarrow> Entity" where
  "updateRandomVariables e newVariables =
     e\<lparr>randomVariables :=
         fold (\<lambda>(key, val) m. AList.update key val m) newVariables (randomVariables e)\<rparr>"

definition setPosition :: "Entity \<Rightarrow> Vector3 \<Rightarrow> Entity" where
  "setPosition e pos = e\<lparr>position := pos\<rparr>"

definition setVelocity :: "Entity \<Rightarrow> Vector3 \<Rightarrow> Entity" where
  "setVelocity e vel = e\<lparr>velocity := vel\<rparr>"

section \<open>EntityManager\<close>

text \<open>
  An instance matrix is kept as the three arguments of \<^verbatim>\<open>matrix.compose\<close>. The instanced
  mesh is absent (\<^verbatim>\<open>null\<close>) until entities exist.
\<close>

record Matrix4 =
  compose_position :: Vector3
  compose_quaternion :: Quaternion
  compose_scale :: Vector3

record EntityManager =
  entities :: "Entity list"
  movementFunction :: MovementFunction
  perceptionRadius :: real
  instancedMesh :: "Matrix4 list option"
  terrainSize :: real
  maxEntityPerception :: real

definition new_EntityManager :: "MovementFunction \<Rightarrow> real \<Rightarrow> real \<Rightarrow> real \<Rightarrow> EntityManager" where
  "new_EntityManager mf radius maxPerception tsize =
     \<lparr>entities = [], movementFunction = mf, perceptionRadius = radius,
      instancedMesh = None, terrainSize = tsize, maxEntityPerception = maxPerception\<rparr>"

text \<open>
  \<^verbatim>\<open>updateInstancedMesh\<close>: one matrix per entity, written at the entity's index
  (\<^verbatim>\<open>setMatrixAt\<close> on an index the buffer does not have writes nothing).
\<close>

definition instanceMatrix :: "Entity \<Rightarrow> Matrix4" where
  "instanceMatrix entity =
     (let pos = getPosition entity;
          vel = getVelocity entity;
          quaternion = (if length_vec vel > 0.1
                        then setFromUnitVectors (Vector3 0 1 0) (normalize_vec (clone vel))
                        else identity_quat)
      in \<lparr>compose_position = pos, compose_quaternion = quaternion,
          compose_scale = Vector3 1 1 1\<rparr>)"

definition updateInstancedMesh :: "EntityManager \<Rightarrow> EntityManager" where
  "updateInstancedMesh mgr =
     (case instancedMesh mgr of
        None \<Rightarrow> mgr
      | Some ms \<Rightarrow>
          mgr\<lparr>instancedMesh :=
                Some (fold (\<lambda>(index, entity) buf. buf[index := instanceMatrix entity])
                        (enumerate 0 (entities mgr)) ms)\<rparr>)"

definition createInstancedMesh :: "EntityManager \<Rightarrow> EntityManager" where
  "createInstancedMesh mgr =
     (if length (entities mgr) = 0 then mgr
      else updateInstancedMesh
             (mgr\<lparr>instancedMesh :=
                    Some (replicate (length (entities mgr))
                            \<lparr>compose_position = Vector3 0 0 0, compose_quaternion = identity_quat,
                             compose_scale = Vector3 1 1 1\<rparr>)\<rparr>))"

text \<open>
  \<^verbatim>\<open>createEntities\<close>. \<^verbatim>\<open>Math.random()\<close> is a stream \<open>rnd\<close> of numbers and a counter \<open>k\<close> of the
  calls made so far; each entity takes six of them, in the order the code evaluates them.
\<close>

definition randomPosition :: "(nat \<Rightarrow> real) \<Rightarrow> nat \<Rightarrow> real \<Rightarrow> Vector3" where
  "randomPosition rnd k tsize =
     Vector3 ((rnd k - 0.5) * tsize * 0.8)
             (20 + rnd (k + 1) * 80)
             ((rnd (k + 2) - 0.5) * tsize * 0.8)"

definition randomVelocity :: "(nat \<Rightarrow> real) \<Rightarrow> nat \<Rightarrow> Vector3" where
  "randomVelocity rnd k =
     Vector3 ((rnd k - 0.5) * 10) ((rnd (k + 1) - 0.5) * 5) ((rnd (k + 2) - 0.5) * 10)"

function createEntities_loop ::
  "(nat \<Rightarrow> real) \<Rightarrow> real \<Rightarrow> real \<Rightarrow> nat \<Rightarrow> nat \<Rightarrow> Entity list \<Rightarrow> Entity list \<times> nat" where
  "createEntities_loop rnd tsize cnt i k es =
     (if real i < cnt
      then (let pos = randomPosition rnd k tsize;
                vel = randomVelocity rnd (k + 3);
                entity = new_Entity pos (Some vel)
            in createEntities_loop rnd tsize cnt (Suc i) (k + 6) (es @ [entity]))
      else (es, k))"
  by pat_completeness auto
termination
  by (relation "measure (\<lambda>(rnd, tsize, cnt, i, k, es). nat \<lceil>cnt\<rceil> - i)") (auto, linarith)

definition createEntities :: "(nat \<Rightarrow> real) \<Rightarrow> nat \<Rightarrow> EntityManager \<Rightarrow> real \<Rightarrow> EntityManager \<times> nat" where
  "createEntities rnd k mgr cnt =
     (case createEntities_loop rnd (terrainSize mgr) cnt 0 k (entities mgr) of
        (es, k') \<Rightarrow> (createInstancedMesh (mgr\<lparr>entities := es\<rparr>), k'))"

text \<open>
  \<^verbatim>\<open>findNearbyEntities\<close>. The scan is the \<^verbatim>\<open>for\<close> loop over the population, \<open>i\<close> the index
  of the head of the list still to visit. \<^verbatim>\<open>Array.sort\<close> with the comparator
  \<^verbatim>\<open>a.distance - b.distance\<close> is a stable sort by distance. \<^verbatim>\<open>slice(0, end)\<close> truncates
  \<^verbatim>\<open>end\<close> (here \<open>e\<close>) towards zero and counts a negative \<^verbatim>\<open>end\<close> from the end of the array.
\<close>

definition closeRange :: real where
  "closeRange = 20"

fun scanEntities ::
  "Vector3 \<Rightarrow> real \<Rightarrow> nat \<Rightarrow> nat \<Rightarrow> Entity list \<Rightarrow> NearbyEntity list \<Rightarrow> NearbyEntity list
     \<Rightarrow> NearbyEntity list \<times> NearbyEntity list" where
  "scanEntities pos radius excludeIndex i [] closeNeighbors distantBirds =
     (closeNeighbors, distantBirds)"
| "scanEntities pos radius excludeIndex i (otherEntity # rest) closeNeighbors distantBirds =
     (if i = excludeIndex
      then scanEntities pos radius excludeIndex (Suc i) rest closeNeighbors distantBirds
      else let otherPosition = getPosition otherEntity;
               d = distanceTo pos otherPosition
           in if d \<le> radius
              then let nearby = \<lparr>nearby_position = otherPosition,
                                  nearby_velocity = getVelocity otherEntity,
                                  distance = d\<rparr>
                   in if d \<le> closeRange
                      then scanEntities pos radius excludeIndex (Suc i) rest
                             (closeNeighbors @ [nearby]) distantBirds
                      else scanEntities pos radius excludeIndex (Suc i) rest
                             closeNeighbors (distantBirds @ [nearby])
              else scanEntities pos radius excludeIndex (Suc i) rest closeNeighbors distantBirds)"

definition ToIntegerOrInfinity :: "real \<Rightarrow> int" where
  "ToIntegerOrInfinity r = (if r < 0 then \<lceil>r\<rceil> else \<lfloor>r\<rfloor>)"

definition slice0 :: "'a list \<Rightarrow> real \<Rightarrow> 'a list" where
  "slice0 xs e =
     (let len = int (length xs);
          relativeEnd = ToIntegerOrInfinity e;
          final = (if relativeEnd < 0 then max (len + relativeEnd) 0 else min relativeEnd len)
      in take (nat final) xs)"

definition findNearbyEntities :: "EntityManager \<Rightarrow> Vector3 \<Rightarrow> nat \<Rightarrow> NearbyEntity list" where
  "findNearbyEntities mgr pos excludeIndex =
     (case scanEntities pos (perceptionRadius mgr) excludeIndex 0 (entities mgr) [] [] of
        (closeNeighbors, distantBirds) \<Rightarrow>
          (let closeSorted = sort_key distance closeNeighbors;
               distantSorted = sort_key distance distantBirds;
               maxCloseNeighbors = min (maxEntityPerception mgr) 7;
               allNearby = slice0 closeSorted maxCloseNeighbors;
               remainingSlots = maxEntityPerception mgr - real (length allNearby)
           in if remainingSlots > 0
              then allNearby @ slice0 distantSorted remainingSlots
              else allNearby))"

definition getTerrainAhead :: "Vector3 \<Rightarrow> Vector3 \<Rightarrow> TerrainInfo list" where
  "getTerrainAhead pos vel =
     map (\<lambda>i. \<lparr>terrain_height = 0, terrain_type = field, terrain_normal = Vector3 0 1 0\<rparr>)
       [1..<6]"

text \<open>
  \<^verbatim>\<open>EntityManager.update\<close>: \<open>updateEntity\<close> is the body of the \<^verbatim>\<open>forEach\<close> callback for
  one index, run on the manager as it is at that moment; the loop visits the indices
  \<open>0, \<dots>, length - 1\<close> in order.
\<close>

definition movementInput :: "EntityManager \<Rightarrow> real \<Rightarrow> nat \<Rightarrow> MovementInput" where
  "movementInput mgr dt index =
     (let state = getState (entities mgr ! index);
          nearby = findNearbyEntities mgr (state_position state) index;
          terrain = getTerrainAhead (state_position state) (state_velocity state)
      in \<lparr>currentState = state, nearbyEntities = nearby, terrainAhead = terrain,
          deltaTime = dt\<rparr>)"

definition applyOutput :: "Entity \<Rightarrow> MovementOutput \<Rightarrow> real \<Rightarrow> Entity" where
  "applyOutput entity output dt =
     (let entity' = Entity_update entity (acceleration output) dt
      in case shouldUpdateRandomVariables output of
           None \<Rightarrow> entity'
         | Some newVariables \<Rightarrow> updateRandomVariables entity' newVariables)"

definition updateEntity :: "real \<Rightarrow> nat \<Rightarrow> EntityManager \<Rightarrow> EntityManager" where
  "updateEntity dt index mgr =
     (let output = movementFunction mgr (movementInput mgr dt index)
      in mgr\<lparr>entities := (entities mgr)[index := applyOutput (entities mgr ! index) output dt]\<rparr>)"

definition updateEntities :: "real \<Rightarrow> nat \<Rightarrow> EntityManager \<Rightarrow> EntityManager" where
  "updateEntities dt n mgr = fold (updateEntity dt) [0..<n] mgr"

definition EntityManager_update :: "EntityManager \<Rightarrow> real \<Rightarrow> EntityManager" where
  "EntityManager_update mgr dt =
     updateInstancedMesh (updateEntities dt (length (entities mgr)) mgr)"

section \<open>The neighbour query as the specification words it\<close>

text \<open>
  These definitions follow the specification, not the code: the entry that describes an
  agent to an observer at \<open>pos\<close> (its position, its velocity, its distance); the population
  without the agent at the excluded index; its close tier (distance at most the radius and at most
  20) and outer tier (distance at most the radius and above 20), in population order;
  and the result: up to \<open>min(K, 7)\<close> of the close tier in ascending distance, then the
  remaining \<open>K - taken\<close> slots from the outer tier in ascending distance.
\<close>

definition nearbyEntity :: "Vector3 \<Rightarrow> Entity \<Rightarrow> NearbyEntity" where
  "nearbyEntity pos otherEntity =
     \<lparr>nearby_position = getPosition otherEntity,
      nearby_velocity = getVelocity otherEntity,
      distance = distanceTo pos (getPosition otherEntity)\<rparr>"

definition otherEntities :: "Entity list \<Rightarrow> nat \<Rightarrow> Entity list" where
  "otherEntities es excludeIndex = take excludeIndex es @ drop (Suc excludeIndex) es"

definition spec_closeTier :: "EntityManager \<Rightarrow> Vector3 \<Rightarrow> nat \<Rightarrow> NearbyEntity list" where
  "spec_closeTier mgr pos excludeIndex =
     filter (\<lambda>n. distance n \<le> perceptionRadius mgr \<and> distance n \<le> 20)
       (map (nearbyEntity pos) (otherEntities (entities mgr) excludeIndex))"

definition spec_outerTier :: "EntityManager \<Rightarrow> Vector3 \<Rightarrow> nat \<Rightarrow> NearbyEntity list" where
  "spec_outerTier mgr pos excludeIndex =
     filter (\<lambda>n. distance n \<le> perceptionRadius mgr \<and> 20 < distance n)
       (map (nearbyEntity pos) (otherEntities (entities mgr) excludeIndex))"

definition spec_neighbors :: "EntityManager \<Rightarrow> Vector3 \<Rightarrow> nat \<Rightarrow> NearbyEntity list" where
  "spec_neighbors mgr pos excludeIndex =
     (let K = maxEntityPerception mgr;
          closeSorted = sort_key distance (spec_closeTier mgr pos excludeIndex);
          outerSorted = sort_key distance (spec_outerTier mgr pos excludeIndex);
          taken = take (nat \<lfloor>min K 7\<rfloor>) closeSorted
      in taken @ take (nat \<lfloor>K - real (length taken)\<rfloor>) outerSorted)"

section \<open>Population initialisation and the randomize operation\<close>

text \<open>
  Modelled from the spec: \<^verbatim>\<open>EntityManager.randomizeEntities\<close>, which \<^verbatim>\<open>main.ts\<close> calls from
  the randomize button, has no body among the sources. The specification says it
  re-applies the initial randomization to the existing population without changing the
  number of agents or any variable map: each entity, in order, gets a new random position
  and velocity through the two setters \<^verbatim>\<open>Entity.ts\<close> provides for randomization.
\<close>

fun randomizeEntities_loop ::
  "(nat \<Rightarrow> real) \<Rightarrow> real \<Rightarrow> nat \<Rightarrow> Entity list \<Rightarrow> Entity list \<times> nat" where
  "randomizeEntities_loop rnd tsize k [] = ([], k)"
| "randomizeEntities_loop rnd tsize k (entity # rest) =
     (let entity' = setVelocity (setPosition entity (randomPosition rnd k tsize))
                      (randomVelocity rnd (k + 3))
      in case randomizeEntities_loop rnd tsize (k + 6) rest of
           (rest', k') \<Rightarrow> (entity' # rest', k'))"

definition randomizeEntities :: "(nat \<Rightarrow> real) \<Rightarrow> nat \<Rightarrow> EntityManager \<Rightarrow> EntityManager \<times> nat" where
  "randomizeEntities rnd k mgr =
     (case randomizeEntities_loop rnd (terrainSize mgr) k (entities mgr) of
        (es, k') \<Rightarrow> (mgr\<lparr>entities := es\<rparr>, k'))"

text \<open>
  The ranges the specification gives for a fresh agent: both horizontal coordinates
  between \<open>-0.4 * terrainSize\<close> and \<open>0.4 * terrainSize\<close>, height in \<open>[20, 100]\<close>, and the
  velocity within \<open>5\<close>, \<open>2.5\<close> and \<open>5\<close> of zero on the three axes.
\<close>

definition initialPosition :: "real \<Rightarrow> Vector3 \<Rightarrow> bool" where
  "initialPosition tsize p \<longleftrightarrow>
     \<bar>vec_x p\<bar> \<le> 0.4 * \<bar>tsize\<bar> \<and> \<bar>vec_z p\<bar> \<le> 0.4 * \<bar>tsize\<bar> \<and> 20 \<le> vec_y p \<and> vec_y p \<le> 100"

definition initialVelocity :: "Vector3 \<Rightarrow> bool" where
  "initialVelocity v \<longleftrightarrow> \<bar>vec_x v\<bar> \<le> 5 \<and> \<bar>vec_y v\<bar> \<le> 2.5 \<and> \<bar>vec_z v\<bar> \<le> 5"

definition freshEntity :: "real \<Rightarrow> Entity \<Rightarrow> bool" where
  "freshEntity tsize e \<longleftrightarrow>
     initialPosition tsize (position e) \<and> initialVelocity (velocity e) \<and> randomVariables e = []"

section \<open>Objects and references\<close>

text \<open>
  In the sections above a vector or a map is a value, and \<^verbatim>\<open>clone()\<close> returns its argument.
  To say which objects a policy can reach, this section models the same functions on a
  store: a \<^verbatim>\<open>Vector3\<close> or a \<^verbatim>\<open>Map\<close> is a reference into the heap, \<^verbatim>\<open>new\<close> and \<^verbatim>\<open>clone()\<close>
  allocate the next free reference, and an entity holds the references of its position,
  its velocity and its variable map. \<open>getState_heap\<close>, \<open>getPosition_heap\<close>,
  \<open>getVelocity_heap\<close>, \<open>scanEntities_heap\<close>, \<open>findNearbyEntities_heap\<close>,
  \<open>getTerrainAhead_heap\<close> and \<open>movementInput_heap\<close> are \<^verbatim>\<open>getState\<close>, \<^verbatim>\<open>getPosition\<close>,
  \<^verbatim>\<open>getVelocity\<close>, the scan and selection of \<^verbatim>\<open>findNearbyEntities\<close>, \<^verbatim>\<open>getTerrainAhead\<close> and
  the construction of the \<^verbatim>\<open>MovementInput\<close> in \<^verbatim>\<open>EntityManager.update\<close>, with the heap passed
  along.
\<close>

type_synonym ref = nat

record Heap =
  vectors :: "ref \<Rightarrow> Vector3"
  maps :: "ref \<Rightarrow> VariableMap"
  nextRef :: ref

definition newVector :: "Heap \<Rightarrow> Vector3 \<Rightarrow> ref \<times> Heap" where
  "newVector h v = (nextRef h, h\<lparr>vectors := (vectors h)(nextRef h := v), nextRef := Suc (nextRef h)\<rparr>)"

definition newMap :: "Heap \<Rightarrow> VariableMap \<Rightarrow> ref \<times> Heap" where
  "newMap h m = (nextRef h, h\<lparr>maps := (maps h)(nextRef h := m), nextRef := Suc (nextRef h)\<rparr>)"

definition clone_ref :: "Heap \<Rightarrow> ref \<Rightarrow> ref \<times> Heap" where
  "clone_ref h r = newVector h (vectors h r)"

record EntityObject =
  position_ref :: ref
  velocity_ref :: ref
  randomVariables_ref :: ref

record EntityStateRefs =
  state_position_ref :: ref
  state_velocity_ref :: ref
  state_randomVariables_ref :: ref

record NearbyEntityRefs =
  nearby_position_ref :: ref
  nearby_velocity_ref :: ref
  nearby_distance :: real

record TerrainInfoRefs =
  terrain_height_val :: real
  terrain_type_val :: SurfaceType
  terrain_normal_ref :: ref

record MovementInputRefs =
  currentState_refs :: EntityStateRefs
  nearbyEntities_refs :: "NearbyEntityRefs list"
  terrainAhead_refs :: "TerrainInfoRefs list"
  deltaTime_val :: real

definition getState_heap :: "Heap \<Rightarrow> EntityObject \<Rightarrow> EntityStateRefs \<times> Heap" where
  "getState_heap h e =
     (case clone_ref h (position_ref e) of (p, h1) \<Rightarrow>
      case clone_ref h1 (velocity_ref e) of (v, h2) \<Rightarrow>
      case newMap h2 (maps h2 (randomVariables_ref e)) of (m, h3) \<Rightarrow>
        (\<lparr>state_position_ref = p, state_velocity_ref = v, state_randomVariables_ref = m\<rparr>, h3))"

definition getPosition_heap :: "Heap \<Rightarrow> EntityObject \<Rightarrow> ref \<times> Heap" where
  "getPosition_heap h e = clone_ref h (position_ref e)"

definition getVelocity_heap :: "Heap \<Rightarrow> EntityObject \<Rightarrow> ref \<times> Heap" where
  "getVelocity_heap h e = clone_ref h (velocity_ref e)"

fun scanEntities_heap ::
  "Heap \<Rightarrow> ref \<Rightarrow> real \<Rightarrow> nat \<Rightarrow> nat \<Rightarrow> EntityObject list \<Rightarrow> NearbyEntityRefs list
     \<Rightarrow> NearbyEntityRefs list \<Rightarrow> (NearbyEntityRefs list \<times> NearbyEntityRefs list) \<times> Heap" where
  "scanEntities_heap h pos radius excludeIndex i [] closeNeighbors distantBirds =
     ((closeNeighbors, distantBirds), h)"
| "scanEntities_heap h pos radius excludeIndex i (otherEntity # rest) closeNeighbors distantBirds =
     (if i = excludeIndex
      then scanEntities_heap h pos radius excludeIndex (Suc i) rest closeNeighbors distantBirds
      else case getPosition_heap h otherEntity of (otherPosition, h1) \<Rightarrow>
        (let d = distanceTo (vectors h1 pos) (vectors h1 otherPosition)
         in if d \<le> radius
            then case getVelocity_heap h1 otherEntity of (otherVelocity, h2) \<Rightarrow>
              (let nearby = \<lparr>nearby_position_ref = otherPosition,
                              nearby_velocity_ref = otherVelocity, nearby_distance = d\<rparr>
               in if d \<le> closeRange
                  then scanEntities_heap h2 pos radius excludeIndex (Suc i) rest
                         (closeNeighbors @ [nearby]) distantBirds
                  else scanEntities_heap h2 pos radius excludeIndex (Suc i) rest
                         closeNeighbors (distantBirds @ [nearby]))
            else scanEntities_heap h1 pos radius excludeIndex (Suc i) rest
                   closeNeighbors distantBirds))"

definition findNearbyEntities_heap ::
  "Heap \<Rightarrow> EntityObject list \<Rightarrow> real \<Rightarrow> real \<Rightarrow> ref \<Rightarrow> nat \<Rightarrow> NearbyEntityRefs list \<times> Heap" where
  "findNearbyEntities_heap h es radius maxPerception pos excludeIndex =
     (case scanEntities_heap h pos radius excludeIndex 0 es [] [] of
        ((closeNeighbors, distantBirds), h') \<Rightarrow>
          (let closeSorted = sort_key nearby_distance closeNeighbors;
               distantSorted = sort_key nearby_distance distantBirds;
               maxCloseNeighbors = min maxPerception 7;
               allNearby = slice0 closeSorted maxCloseNeighbors;
               remainingSlots = maxPerception - real (length allNearby)
           in (if remainingSlots > 0
               then allNearby @ slice0 distantSorted remainingSlots
               else allNearby, h')))"

fun getTerrainAhead_heap :: "Heap \<Rightarrow> nat \<Rightarrow> TerrainInfoRefs list \<Rightarrow> TerrainInfoRefs list \<times> Heap" where
  "getTerrainAhead_heap h 0 terrainInfo = (terrainInfo, h)"
| "getTerrainAhead_heap h (Suc n) terrainInfo =
     (case newVector h (Vector3 0 1 0) of (normal, h1) \<Rightarrow>
        getTerrainAhead_heap h1 n
          (terrainInfo @ [\<lparr>terrain_height_val = 0, terrain_type_val = field,
                            terrain_normal_ref = normal\<rparr>]))"

definition movementInput_heap ::
  "Heap \<Rightarrow> EntityObject list \<Rightarrow> real \<Rightarrow> real \<Rightarrow> real \<Rightarrow> nat \<Rightarrow> MovementInputRefs \<times> Heap" where
  "movementInput_heap h es radius maxPerception dt index =
     (case getState_heap h (es ! index) of (state, h1) \<Rightarrow>
      case findNearbyEntities_heap h1 es radius maxPerception (state_position_ref state) index of
        (nearby, h2) \<Rightarrow>
      case getTerrainAhead_heap h2 5 [] of (terrain, h3) \<Rightarrow>
        (\<lparr>currentState_refs = state, nearbyEntities_refs = nearby,
          terrainAhead_refs = terrain, deltaTime_val = dt\<rparr>, h3))"

text \<open>
  The references a policy reaches from its input; what it means for a heap \<open>h'\<close> to differ
  from \<open>h\<close> only by writes to those objects (and allocations); and the auxiliary notions
  of the proofs: an entity whose three objects exist in a heap, a heap that extends
  another, a neighbour entry whose two vectors were allocated from \<open>n0\<close> on, and a
  neighbour entry whose vectors hold the position and velocity some entity of \<open>E\<close> had
  in \<open>h0\<close>.
\<close>

definition vectorRefs :: "MovementInputRefs \<Rightarrow> ref set" where
  "vectorRefs inp =
     {state_position_ref (currentState_refs inp), state_velocity_ref (currentState_refs inp)} \<union>
     nearby_position_ref ` set (nearbyEntities_refs inp) \<union>
     nearby_velocity_ref ` set (nearbyEntities_refs inp) \<union>
     terrain_normal_ref ` set (terrainAhead_refs inp)"

definition mapRefs :: "MovementInputRefs \<Rightarrow> ref set" where
  "mapRefs inp = {state_randomVariables_ref (currentState_refs inp)}"

definition mutatesOnly :: "MovementInputRefs \<Rightarrow> Heap \<Rightarrow> Heap \<Rightarrow> bool" where
  "mutatesOnly inp h h' \<longleftrightarrow>
     (\<forall>r. r < nextRef h \<and> r \<notin> vectorRefs inp \<longrightarrow> vectors h' r = vectors h r) \<and>
     (\<forall>r. r < nextRef h \<and> r \<notin> mapRefs inp \<longrightarrow> maps h' r = maps h r)"

definition allocated :: "Heap \<Rightarrow> EntityObject \<Rightarrow> bool" where
  "allocated h e \<longleftrightarrow>
     position_ref e < nextRef h \<and> velocity_ref e < nextRef h \<and> randomVariables_ref e < nextRef h"

definition extends :: "Heap \<Rightarrow> Heap \<Rightarrow> bool" where
  "extends h h' \<longleftrightarrow>
     nextRef h \<le> nextRef h' \<and>
     (\<forall>r. r < nextRef h \<longrightarrow> vectors h' r = vectors h r \<and> maps h' r = maps h r)"

definition freshNearby :: "ref \<Rightarrow> Heap \<Rightarrow> NearbyEntityRefs \<Rightarrow> bool" where
  "freshNearby n0 h n \<longleftrightarrow>
     n0 \<le> nearby_position_ref n \<and> nearby_position_ref n < nextRef h \<and>
     n0 \<le> nearby_velocity_ref n \<and> nearby_velocity_ref n < nextRef h"

definition copyOf :: "Heap \<Rightarrow> EntityObject set \<Rightarrow> Heap \<Rightarrow> NearbyEntityRefs \<Rightarrow> bool" where
  "copyOf h0 E h n \<longleftrightarrow>
     (\<exists>e \<in> E. vectors h (nearby_position_ref n) = vectors h0 (position_ref e) \<and>
              vectors h (nearby_velocity_ref n) = vectors h0 (velocity_ref e))"

section \<open>Double-precision numbers and the integrator on them\<close>

text \<open>
  A JavaScript \<^verbatim>\<open>number\<close> is an IEEE 754 binary64 value. \<open>Finite s m e\<close> is the number
  \<open>(-1)\<^sup>s * m * 2\<^sup>e\<close>, with \<open>m < 2\<^sup>5\<^sup>3\<close>, \<open>-1074 \<le> e \<le> 971\<close>, and \<open>2\<^sup>5\<^sup>2 \<le> m\<close> unless
  \<open>e = -1074\<close> (the subnormal numbers); zero is \<open>Finite s 0 0\<close> and keeps its sign. \<open>Infinity s\<close>
  and \<open>NaN\<close> are the other values.

  Every operation computes its exact result as a sign, a natural mantissa and an exponent,
  and rounds it to the nearest double, ties to even: \<open>bit_length n\<close> is the number of binary
  digits of \<open>n\<close>; \<open>round_shift M k sticky\<close> is \<open>M / 2\<^sup>k\<close> rounded to nearest, ties to even, where
  \<open>sticky\<close> says that nonzero digits below \<open>M\<close> were already dropped (by a division or a
  square root); \<open>make_double s M E sticky\<close> is the double nearest to \<open>(-1)\<^sup>s * M * 2\<^sup>E\<close>,
  which is an infinity when the rounded exponent exceeds 971.
\<close>

datatype double = Finite bool nat int | Infinity bool | NaN

function bit_length :: "nat \<Rightarrow> nat" where
  "bit_length n = (if n = 0 then 0 else Suc (bit_length (n div 2)))"
  by pat_completeness auto
termination
  by (relation "measure id") auto

declare bit_length.simps [simp del]

definition round_shift :: "nat \<Rightarrow> nat \<Rightarrow> bool \<Rightarrow> nat" where
  "round_shift M k sticky =
     (if k = 0 then M
      else let q = M div 2 ^ k; r = M mod 2 ^ k; half = 2 ^ (k - 1)
           in if half < r \<or> (r = half \<and> (sticky \<or> q mod 2 = 1)) then q + 1 else q)"

definition make_double :: "bool \<Rightarrow> nat \<Rightarrow> int \<Rightarrow> bool \<Rightarrow> double" where
  "make_double s M E sticky =
     (if M = 0 then Finite s 0 0
      else let e1 = max (E + int (bit_length M) - 53) (- 1074);
               m = (if e1 \<le> E then M * 2 ^ nat (E - e1) else round_shift M (nat (e1 - E)) sticky);
               e2 = (if m = 2 ^ 53 then e1 + 1 else e1);
               m2 = (if m = 2 ^ 53 then 2 ^ 52 else m)
           in if m2 = 0 then Finite s 0 0
              else if 971 < e2 then Infinity s
              else Finite s m2 e2)"

definition signed_mantissa :: "bool \<Rightarrow> nat \<Rightarrow> int" where
  "signed_mantissa s m = (if s then - int m else int m)"

text \<open>
  The operators \<^verbatim>\<open>*\<close>, \<^verbatim>\<open>+\<close>, \<^verbatim>\<open>/\<close> and \<^verbatim>\<open>>\<close> on numbers, and \<^verbatim>\<open>Math.sqrt\<close> (correctly rounded,
  as the IEEE 754 square root is). A sum that is exactly zero is \<open>+0\<close> unless both operands
  are \<open>-0\<close>; \<open>Infinity * 0\<close> and \<open>Infinity - Infinity\<close> are \<open>NaN\<close>; a comparison with \<open>NaN\<close> is
  false.
\<close>

fun double_mult :: "double \<Rightarrow> double \<Rightarrow> double" where
  "double_mult NaN b = NaN"
| "double_mult a NaN = NaN"
| "double_mult (Infinity s) (Infinity t) = Infinity (s \<noteq> t)"
| "double_mult (Infinity s) (Finite t m e) = (if m = 0 then NaN else Infinity (s \<noteq> t))"
| "double_mult (Finite s m e) (Infinity t) = (if m = 0 then NaN else Infinity (s \<noteq> t))"
| "double_mult (Finite s1 m1 e1) (Finite s2 m2 e2) =
     make_double (s1 \<noteq> s2) (m1 * m2) (e1 + e2) False"

fun double_add :: "double \<Rightarrow> double \<Rightarrow> double" where
  "double_add NaN b = NaN"
| "double_add a NaN = NaN"
| "double_add (Infinity s) (Infinity t) = (if s = t then Infinity s else NaN)"
| "double_add (Infinity s) (Finite t m e) = Infinity s"
| "double_add (Finite s m e) (Infinity t) = Infinity t"
| "double_add (Finite s1 m1 e1) (Finite s2 m2 e2) =
     (let e = min e1 e2;
          i = signed_mantissa s1 (m1 * 2 ^ nat (e1 - e)) + signed_mantissa s2 (m2 * 2 ^ nat (e2 - e))
      in if i = 0 then Finite (s1 \<and> s2) 0 0
         else make_double (i < 0) (nat \<bar>i\<bar>) e False)"

fun double_div :: "double \<Rightarrow> double \<Rightarrow> double" where
  "double_div NaN b = NaN"
| "double_div a NaN = NaN"
| "double_div (Infinity s) (Infinity t) = NaN"
| "double_div (Infinity s) (Finite t m e) = Infinity (s \<noteq> t)"
| "double_div (Finite s m e) (Infinity t) = Finite (s \<noteq> t) 0 0"
| "double_div (Finite s1 m1 e1) (Finite s2 m2 e2) =
     (if m2 = 0 then (if m1 = 0 then NaN else Infinity (s1 \<noteq> s2))
      else if m1 = 0 then Finite (s1 \<noteq> s2) 0 0
      else let k = 55 + bit_length m2;
               n = m1 * 2 ^ k
           in make_double (s1 \<noteq> s2) (n div m2) (e1 - e2 - int k) (n mod m2 \<noteq> 0))"

fun isqrt_bits :: "nat \<Rightarrow> nat \<Rightarrow> nat \<Rightarrow> nat" where
  "isqrt_bits 0 n r = r"
| "isqrt_bits (Suc b) n r =
     (if (r + 2 ^ b) * (r + 2 ^ b) \<le> n then isqrt_bits b n (r + 2 ^ b) else isqrt_bits b n r)"

definition isqrt :: "nat \<Rightarrow> nat" where
  "isqrt n = isqrt_bits (bit_length n) n 0"

fun double_sqrt :: "double \<Rightarrow> double" where
  "double_sqrt NaN = NaN"
| "double_sqrt (Infinity s) = (if s then NaN else Infinity s)"
| "double_sqrt (Finite s m e) =
     (if m = 0 then Finite s 0 0
      else if s then NaN
      else let k = 110 + nat (e mod 2);
               n = m * 2 ^ k;
               r = isqrt n
           in make_double False r ((e - int k) div 2) (r * r \<noteq> n))"

fun double_greater :: "double \<Rightarrow> double \<Rightarrow> bool" where
  "double_greater NaN b = False"
| "double_greater a NaN = False"
| "double_greater (Infinity s) (Infinity t) = (t \<and> \<not> s)"
| "double_greater (Infinity s) (Finite t m e) = (\<not> s)"
| "double_greater (Finite s m e) (Infinity t) = t"
| "double_greater (Finite s1 m1 e1) (Finite s2 m2 e2) =
     (let e = min e1 e2
      in signed_mantissa s2 (m2 * 2 ^ nat (e2 - e)) < signed_mantissa s1 (m1 * 2 ^ nat (e1 - e)))"

text \<open>
  \<open>falsy d\<close>: the numbers that \<^verbatim>\<open>||\<close> treats as false (\<open>0\<close>, \<open>-0\<close> and \<open>NaN\<close>). \<open>double_of_nat n\<close>
  is the double a numeric literal \<open>n\<close> denotes, and \<open>double_value d\<close> the real number a
  finite double denotes (the infinities and \<open>NaN\<close> denote none, and are given 0).
\<close>

fun falsy :: "double \<Rightarrow> bool" where
  "falsy NaN = True"
| "falsy (Infinity s) = False"
| "falsy (Finite s m e) = (m = 0)"

definition double_of_nat :: "nat \<Rightarrow> double" where
  "double_of_nat n = make_double False n 0 False"

definition double_value :: "double \<Rightarrow> real" where
  "double_value d =
     (case d of Finite s m e \<Rightarrow> real_of_int (signed_mantissa s m) * 2 powi e
      | Infinity s \<Rightarrow> 0 | NaN \<Rightarrow> 0)"

text \<open>
  The \<^verbatim>\<open>Vector3\<close> methods that \<^verbatim>\<open>Entity.update\<close> calls, on doubles, with the operations in
  the order three.js performs them: \<^verbatim>\<open>length()\<close> is
  \<^verbatim>\<open>Math.sqrt(x * x + y * y + z * z)\<close>, \<^verbatim>\<open>divideScalar(s)\<close> is \<^verbatim>\<open>multiplyScalar(1 / s)\<close> and
  \<^verbatim>\<open>normalize()\<close> is \<^verbatim>\<open>divideScalar(this.length() || 1)\<close>.
\<close>

record Vector3_fp =
  fp_x :: double
  fp_y :: double
  fp_z :: double

definition add_fp :: "Vector3_fp \<Rightarrow> Vector3_fp \<Rightarrow> Vector3_fp" where
  "add_fp v w = \<lparr>fp_x = double_add (fp_x v) (fp_x w), fp_y = double_add (fp_y v) (fp_y w),
                 fp_z = double_add (fp_z v) (fp_z w)\<rparr>"

definition multiplyScalar_fp :: "Vector3_fp \<Rightarrow> double \<Rightarrow> Vector3_fp" where
  "multiplyScalar_fp v s = \<lparr>fp_x = double_mult (fp_x v) s, fp_y = double_mult (fp_y v) s,
                            fp_z = double_mult (fp_z v) s\<rparr>"

definition divideScalar_fp :: "Vector3_fp \<Rightarrow> double \<Rightarrow> Vector3_fp" where
  "divideScalar_fp v s = multiplyScalar_fp v (double_div (double_of_nat 1) s)"

definition length_fp :: "Vector3_fp \<Rightarrow> double" where
  "length_fp v = double_sqrt (double_add (double_add (double_mult (fp_x v) (fp_x v))
                                                     (double_mult (fp_y v) (fp_y v)))
                                         (double_mult (fp_z v) (fp_z v)))"

definition normalize_fp :: "Vector3_fp \<Rightarrow> Vector3_fp" where
  "normalize_fp v = divideScalar_fp v (if falsy (length_fp v) then double_of_nat 1 else length_fp v)"

text \<open>
  \<^verbatim>\<open>Entity.update\<close> on doubles, for the position and the velocity (lines 73 to 83; the
  lines after them write the mesh and change neither). The statements and the branch are
  those of \<open>Entity_update\<close> above, with every arithmetic operation rounded.
\<close>

record Entity_fp =
  position_fp :: Vector3_fp
  velocity_fp :: Vector3_fp

definition Entity_update_fp :: "Entity_fp \<Rightarrow> Vector3_fp \<Rightarrow> double \<Rightarrow> Entity_fp" where
  "Entity_update_fp e acc dt =
     (let v1 = add_fp (velocity_fp e) (multiplyScalar_fp acc dt);
          maxSpeed_fp = double_of_nat 50;
          v2 = (if double_greater (length_fp v1) maxSpeed_fp
                then multiplyScalar_fp (normalize_fp v1) maxSpeed_fp else v1);
          p1 = add_fp (position_fp e) (multiplyScalar_fp v2 dt)
      in \<lparr>position_fp = p1, velocity_fp = v2\<rparr>)"

section \<open>Scenarios\<close>

text \<open>
  Concrete policies and populations on which the theorems below are instantiated:
  \<open>calculateMovement\<close> is the placeholder policy of \<^verbatim>\<open>movementFunction.ts\<close> (zero
  acceleration, no variable patch); \<open>forwardPolicy\<close> pushes forward while the speed is
  below 20; \<open>brakePolicy\<close> decelerates along the x axis. \<open>withEntities\<close> gives a manager a
  population and its instanced mesh. \<open>twoAgents\<close> are two agents at rest, five units apart,
  under \<open>forwardPolicy\<close>.
\<close>

definition calculateMovement :: MovementFunction where
  "calculateMovement input = \<lparr>acceleration = Vector3 0 0 0, shouldUpdateRandomVariables = None\<rparr>"

definition forwardPolicy :: MovementFunction where
  "forwardPolicy input =
     \<lparr>acceleration = (if length_vec (state_velocity (currentState input)) < 20
                      then Vector3 0 0 (- 5) else Vector3 0 0 0),
      shouldUpdateRandomVariables = None\<rparr>"

definition brakePolicy :: MovementFunction where
  "brakePolicy input = \<lparr>acceleration = Vector3 (- 100) 0 0, shouldUpdateRandomVariables = None\<rparr>"

definition withEntities :: "EntityManager \<Rightarrow> Entity list \<Rightarrow> EntityManager" where
  "withEntities mgr es = createInstancedMesh (mgr\<lparr>entities := es\<rparr>)"

definition twoAgents :: EntityManager where
  "twoAgents = withEntities (new_EntityManager forwardPolicy 50 7 1000)
                 [new_Entity (Vector3 0 50 0) None, new_Entity (Vector3 5 50 0) None]"

text \<open>
  \<open>flock K\<close>: an observer at the origin (index 0) and six agents at rest on the x axis, at
  distances 3, 1, 30, 25, 2 and 60, with perception radius 50 and cap \<open>K\<close>; \<open>seenAt d\<close> is
  the neighbour entry of the agent at distance \<open>d\<close>.
\<close>

definition flock :: "real \<Rightarrow> EntityManager" where
  "flock K = withEntities (new_EntityManager calculateMovement 50 K 1000)
               [new_Entity (Vector3 0 0 0) None, new_Entity (Vector3 3 0 0) None,
                new_Entity (Vector3 1 0 0) None, new_Entity (Vector3 30 0 0) None,
                new_Entity (Vector3 25 0 0) None, new_Entity (Vector3 2 0 0) None,
                new_Entity (Vector3 60 0 0) None]"

definition seenAt :: "real \<Rightarrow> NearbyEntity" where
  "seenAt d = \<lparr>nearby_position = Vector3 d 0 0, nearby_velocity = Vector3 0 0 0, distance = d\<rparr>"

text \<open>
  \<open>braking\<close>: one agent flying at speed 10 along the x axis, under \<open>brakePolicy\<close>; a tick
  of 0.1 s stops it.
\<close>

definition braking :: EntityManager where
  "braking = withEntities (new_EntityManager brakePolicy 50 7 1000)
               [new_Entity (Vector3 0 50 0) (Some (Vector3 10 0 0))]"

text \<open>\<open>halves\<close>: a stream of random numbers, alternating 0 and 0.5.\<close>

definition halves :: "nat \<Rightarrow> real" where
  "halves n = (if even n then 0 else 0.5)"

text \<open>
  \<open>twoObjects\<close>, \<open>twoObjectsHeap\<close>: two entities in a heap, at \<open>(7, 0, 0)\<close> and \<open>(1, 0, 0)\<close>, the
  first with the variable \<open>a = 1\<close>.
\<close>

definition twoObjects :: "EntityObject list" where
  "twoObjects = [\<lparr>position_ref = 0, velocity_ref = 1, randomVariables_ref = 2\<rparr>,
                 \<lparr>position_ref = 3, velocity_ref = 4, randomVariables_ref = 5\<rparr>]"

definition twoObjectsHeap :: Heap where
  "twoObjectsHeap =
     \<lparr>vectors = (\<lambda>r. if r = 3 then Vector3 1 0 0 else if r = 0 then Vector3 7 0 0 else Vector3 0 0 0),
      maps = (\<lambda>r. if r = 2 then [(''a'', 1)] else []),
      nextRef = 6\<rparr>"

text \<open>
  \<open>lineAgents\<close>: three agents at rest on the x axis, five units apart, under \<open>leftPolicy\<close>, which
  accelerates every agent by \<open>(-4, 0, 0)\<close>; a tick of 0.5 s moves each of them one unit to
  the left.
\<close>

definition leftPolicy :: MovementFunction where
  "leftPolicy input = \<lparr>acceleration = Vector3 (- 4) 0 0, shouldUpdateRandomVariables = None\<rparr>"

definition lineAgents :: EntityManager where
  "lineAgents = withEntities (new_EntityManager leftPolicy 50 7 1000)
                  [new_Entity (Vector3 0 0 0) None, new_Entity (Vector3 5 0 0) None,
                   new_Entity (Vector3 10 0 0) None]"

text \<open>
  On doubles: \<open>vector_fp x y z\<close> is \<^verbatim>\<open>new THREE.Vector3(x, y, z)\<close> for integer literals; \<open>atRest\<close>
  is an entity at rest at the origin; \<open>sixteenth\<close> is the time step \<open>1 / 16 = 0.0625\<close>;
  \<open>pushed\<close> is \<open>atRest\<close> after one update with the acceleration \<open>(1120, 160, 480)\<close> and that
  time step, which takes the velocity to \<open>(70, 10, 30)\<close> before the cap; \<open>huge\<close> is the literal
  \<^verbatim>\<open>1e200\<close>.
\<close>

definition vector_fp :: "nat \<Rightarrow> nat \<Rightarrow> nat \<Rightarrow> Vector3_fp" where
  "vector_fp x y z = \<lparr>fp_x = double_of_nat x, fp_y = double_of_nat y, fp_z = double_of_nat z\<rparr>"

definition atRest :: Entity_fp where
  "atRest = \<lparr>position_fp = vector_fp 0 0 0, velocity_fp = vector_fp 0 0 0\<rparr>"

definition sixteenth :: double where
  "sixteenth = double_div (double_of_nat 1) (double_of_nat 16)"

definition pushed :: Entity_fp where
  "pushed = Entity_update_fp atRest (vector_fp 1120 160 480) sixteenth"

definition huge :: double where
  "huge = double_of_nat (10 ^ 200)"

section \<open>Helper lemmas\<close>

lemma velocity_Entity_update:
  "velocity (Entity_update e acc dt) =
     (let v1 = add (velocity e) (multiplyScalar acc dt)
      in if length_vec v1 > maxSpeed then multiplyScalar (normalize_vec v1) maxSpeed else v1)"
  by (simp add: Entity_update_def Let_def clone_def)

lemma position_Entity_update:
  "position (Entity_update e acc dt) =
     add (position e) (multiplyScalar (velocity (Entity_update e acc dt)) dt)"
  by (simp add: Entity_update_def Let_def clone_def)

lemma randomVariables_Entity_update [simp]:
  "randomVariables (Entity_update e acc dt) = randomVariables e"
  by (simp add: Entity_update_def Let_def)

subsection \<open>The update loop\<close>

lemma entities_updateInstancedMesh [simp]:
  "entities (updateInstancedMesh mgr) = entities mgr"
  by (simp add: updateInstancedMesh_def split: option.splits)

lemma entities_updateEntity:
  "entities (updateEntity dt i mgr) =
     (entities mgr)[i := applyOutput (entities mgr ! i)
                           (movementFunction mgr (movementInput mgr dt i)) dt]"
  by (simp add: updateEntity_def Let_def)

lemma length_entities_updateEntity [simp]:
  "length (entities (updateEntity dt i mgr)) = length (entities mgr)"
  by (simp add: entities_updateEntity)

lemma fold_updateEntity_length [simp]:
  "length (entities (fold (updateEntity dt) is mgr)) = length (entities mgr)"
  by (induction "is" arbitrary: mgr) simp_all

lemma fold_updateEntity_other:
  "j \<notin> set is \<Longrightarrow> entities (fold (updateEntity dt) is mgr) ! j = entities mgr ! j"
  by (induction "is" arbitrary: mgr) (simp_all add: entities_updateEntity)

lemma updateEntities_Suc:
  "updateEntities dt (Suc n) mgr = updateEntity dt n (updateEntities dt n mgr)"
  by (simp add: updateEntities_def)

lemma updateEntities_split:
  "i \<le> n \<Longrightarrow> updateEntities dt n mgr = fold (updateEntity dt) [i..<n] (updateEntities dt i mgr)"
proof -
  assume "i \<le> n"
  then have "[0..<n] = [0..<i] @ [i..<n]"
    by (metis le_add_diff_inverse upt_add_eq_append zero_le)
  then show ?thesis by (simp add: updateEntities_def)
qed

lemma updateEntities_later:
  "i \<le> j \<Longrightarrow> entities (updateEntities dt i mgr) ! j = entities mgr ! j"
  by (simp add: updateEntities_def fold_updateEntity_other)

lemma updateEntities_earlier:
  "j < i \<Longrightarrow> i \<le> n \<Longrightarrow>
     entities (updateEntities dt n mgr) ! j = entities (updateEntities dt i mgr) ! j"
  by (simp add: updateEntities_split [of i n] fold_updateEntity_other)

lemma updateEntities_nth:
  assumes "j < length (entities mgr)" "j < n"
  shows "entities (updateEntities dt n mgr) ! j =
           applyOutput (entities mgr ! j)
             (movementFunction (updateEntities dt j mgr) (movementInput (updateEntities dt j mgr) dt j)) dt"
proof -
  have "entities (updateEntities dt n mgr) ! j = entities (updateEntities dt (Suc j) mgr) ! j"
    using assms by (simp add: updateEntities_earlier [of j "Suc j" n])
  also have "\<dots> = applyOutput (entities (updateEntities dt j mgr) ! j)
             (movementFunction (updateEntities dt j mgr) (movementInput (updateEntities dt j mgr) dt j)) dt"
    using assms by (simp add: updateEntities_Suc entities_updateEntity updateEntities_def)
  finally show ?thesis by (simp add: updateEntities_later)
qed

subsection \<open>Entities, scenarios\<close>

lemma velocity_applyOutput:
  "velocity (applyOutput e out dt) = velocity (Entity_update e (acceleration out) dt)"
  by (simp add: applyOutput_def Let_def updateRandomVariables_def split: option.splits)

lemma position_applyOutput:
  "position (applyOutput e out dt) = position (Entity_update e (acceleration out) dt)"
  by (simp add: applyOutput_def Let_def updateRandomVariables_def split: option.splits)

lemma entities_EntityManager_update:
  "entities (EntityManager_update mgr dt) = entities (updateEntities dt (length (entities mgr)) mgr)"
  by (simp add: EntityManager_update_def)

lemma length_entities_updateEntities [simp]:
  "length (entities (updateEntities dt n mgr)) = length (entities mgr)"
  by (simp add: updateEntities_def)

lemma updateEntities_0 [simp]: "updateEntities dt 0 mgr = mgr"
  by (simp add: updateEntities_def)

lemma entities_createInstancedMesh [simp]:
  "entities (createInstancedMesh mgr) = entities mgr"
  by (simp add: createInstancedMesh_def)

lemma movementFunction_updateInstancedMesh [simp]:
  "movementFunction (updateInstancedMesh mgr) = movementFunction mgr"
  by (simp add: updateInstancedMesh_def split: option.splits)

lemma movementFunction_createInstancedMesh [simp]:
  "movementFunction (createInstancedMesh mgr) = movementFunction mgr"
  by (simp add: createInstancedMesh_def)

lemma entities_withEntities [simp]: "entities (withEntities mgr es) = es"
  by (simp add: withEntities_def)

lemma movementFunction_withEntities [simp]:
  "movementFunction (withEntities mgr es) = movementFunction mgr"
  by (simp add: withEntities_def)

lemma length_vec_zero [simp]: "length_vec (Vector3 0 0 0) = 0"
  by (simp add: length_vec_def)

lemma length_vec_axis_x [simp]: "length_vec (Vector3 a 0 0) = \<bar>a\<bar>"
  by (simp add: length_vec_def)

lemma length_vec_axis_z [simp]: "length_vec (Vector3 0 0 a) = \<bar>a\<bar>"
  by (simp add: length_vec_def)

subsection \<open>Variable maps\<close>

lemma map_of_fold_update:
  "map_of (fold (\<lambda>(key, val) m. AList.update key val m) patch vars) =
     map_of vars ++ map_of (rev patch)"
proof (induction patch arbitrary: vars)
  case Nil
  then show ?case by simp
next
  case (Cons kv patch)
  obtain k v where kv: "kv = (k, v)" by (cases kv)
  have "map_of (fold (\<lambda>(key, val) m. AList.update key val m) (kv # patch) vars)
      = map_of (AList.update k v vars) ++ map_of (rev patch)"
    by (simp add: kv Cons.IH)
  also have "\<dots> = map_of vars ++ map_of (rev (kv # patch))"
    by (simp add: kv update_conv' map_add_def fun_eq_iff split: option.splits)
  finally show ?case .
qed

lemma distinct_fold_update:
  "distinct (map fst vars) \<Longrightarrow>
     distinct (map fst (fold (\<lambda>(key, val) m. AList.update key val m) patch vars))"
  by (induction patch arbitrary: vars) (auto simp: distinct_update)

lemma map_of_rev_distinct:
  "distinct (map fst patch) \<Longrightarrow> map_of (rev patch) = map_of patch"
  by (rule ext) (metis distinct_rev map_of_eq_Some_iff map_of_eq_None_iff not_Some_eq rev_map set_rev)

lemma randomVariables_applyOutput:
  "randomVariables (applyOutput e out dt) =
     (case shouldUpdateRandomVariables out of
        None \<Rightarrow> randomVariables e
      | Some patch \<Rightarrow> randomVariables (updateRandomVariables e patch))"
  by (simp add: applyOutput_def Let_def updateRandomVariables_def split: option.splits)

subsection \<open>The neighbour query\<close>

lemma scanEntities_filter:
  "scanEntities pos radius ex i xs cs ds =
     (cs @ filter (\<lambda>n. distance n \<le> radius \<and> distance n \<le> closeRange)
             (map (nearbyEntity pos) (if ex < i then xs else take (ex - i) xs @ drop (Suc (ex - i)) xs)),
      ds @ filter (\<lambda>n. distance n \<le> radius \<and> closeRange < distance n)
             (map (nearbyEntity pos) (if ex < i then xs else take (ex - i) xs @ drop (Suc (ex - i)) xs)))"
proof (induction xs arbitrary: i cs ds)
  case Nil
  then show ?case by simp
next
  case (Cons x xs)
  show ?case
  proof (cases "i = ex")
    case True
    then show ?thesis by (simp add: Cons.IH)
  next
    case False
    show ?thesis
    proof (cases "ex < i")
      case True
      then show ?thesis using False by (simp add: Cons.IH Let_def nearbyEntity_def)
    next
      case f: False
      with False have "i < ex" by simp
      then obtain k where k: "ex - i = Suc k" "ex - Suc i = k"
        by (metis Suc_diff_Suc)
      have "\<not> ex < Suc i" using \<open>i < ex\<close> by simp
      then show ?thesis using False f k by (simp add: Cons.IH Let_def nearbyEntity_def)
    qed
  qed
qed

lemma scanEntities_tiers:
  "scanEntities pos (perceptionRadius mgr) ex 0 (entities mgr) [] [] =
     (spec_closeTier mgr pos ex, spec_outerTier mgr pos ex)"
  by (simp add: scanEntities_filter spec_closeTier_def spec_outerTier_def otherEntities_def
      closeRange_def)

lemma slice0_nonneg: "0 \<le> e \<Longrightarrow> slice0 xs e = take (nat \<lfloor>e\<rfloor>) xs"
proof -
  assume "0 \<le> e"
  then have "0 \<le> \<lfloor>e\<rfloor>" by simp
  then have "take (nat (min \<lfloor>e\<rfloor> (int (length xs)))) xs = take (nat \<lfloor>e\<rfloor>) xs"
    by (simp add: min_def) 
  with \<open>0 \<le> e\<close> show ?thesis
    by (simp add: slice0_def ToIntegerOrInfinity_def Let_def)
qed

lemma slice0_take: "\<exists>n. slice0 xs e = take n xs"
  by (auto simp: slice0_def Let_def)

lemma findNearbyEntities_tiers:
  "findNearbyEntities mgr pos ex =
     (let closeSorted = sort_key distance (spec_closeTier mgr pos ex);
          distantSorted = sort_key distance (spec_outerTier mgr pos ex);
          allNearby = slice0 closeSorted (min (maxEntityPerception mgr) 7);
          remainingSlots = maxEntityPerception mgr - real (length allNearby)
      in if remainingSlots > 0 then allNearby @ slice0 distantSorted remainingSlots else allNearby)"
  by (simp add: findNearbyEntities_def scanEntities_tiers Let_def)

lemma findNearbyEntities_spec:
  assumes "0 \<le> maxEntityPerception mgr"
  shows "findNearbyEntities mgr pos ex = spec_neighbors mgr pos ex"
proof -
  define K where "K = maxEntityPerception mgr"
  define cs where "cs = sort_key distance (spec_closeTier mgr pos ex)"
  define os where "os = sort_key distance (spec_outerTier mgr pos ex)"
  define taken where "taken = take (nat \<lfloor>min K 7\<rfloor>) cs"
  have K: "0 \<le> K" using assms by (simp add: K_def)
  then have s1: "slice0 cs (min K 7) = taken"
    by (simp add: slice0_nonneg taken_def)
  have s2: "(if K - real (length taken) > 0 then taken @ slice0 os (K - real (length taken)) else taken)
          = taken @ take (nat \<lfloor>K - real (length taken)\<rfloor>) os"
    by (simp add: slice0_nonneg)
  show ?thesis
    unfolding findNearbyEntities_tiers spec_neighbors_def Let_def
    unfolding K_def [symmetric] cs_def [symmetric] os_def [symmetric] s1
    unfolding taken_def [symmetric] s2 ..
qed

lemma mset_take_subset: "mset (take n xs) \<subseteq># mset xs"
proof -
  have "mset xs = mset (take n xs) + mset (drop n xs)"
    by (metis append_take_drop_id mset_append)
  then show ?thesis by simp
qed

lemma tiers_subset:
  "mset (spec_closeTier mgr pos ex) + mset (spec_outerTier mgr pos ex)
     \<subseteq># mset (map (nearbyEntity pos) (otherEntities (entities mgr) ex))"
proof -
  let ?all = "mset (map (nearbyEntity pos) (otherEntities (entities mgr) ex))"
  let ?inR = "filter_mset (\<lambda>n. distance n \<le> perceptionRadius mgr) ?all"
  have c: "mset (spec_closeTier mgr pos ex) = filter_mset (\<lambda>n. distance n \<le> 20) ?inR"
    by (auto simp: spec_closeTier_def filter_filter_mset intro!: filter_mset_cong)
  have "\<And>n::NearbyEntity. (20 < distance n) = (\<not> distance n \<le> 20)"
    by auto
  then have o: "mset (spec_outerTier mgr pos ex) = filter_mset (\<lambda>n. \<not> distance n \<le> 20) ?inR"
    by (auto simp: spec_outerTier_def filter_filter_mset intro!: filter_mset_cong)
  have "mset (spec_closeTier mgr pos ex) + mset (spec_outerTier mgr pos ex) = ?inR"
    unfolding c o by (rule multiset_partition [symmetric])
  then show ?thesis by simp
qed

lemma findNearbyEntities_takes:
  "\<exists>a b. findNearbyEntities mgr pos ex =
     take a (sort_key distance (spec_closeTier mgr pos ex)) @
     take b (sort_key distance (spec_outerTier mgr pos ex))"
proof -
  let ?cs = "sort_key distance (spec_closeTier mgr pos ex)"
  let ?os = "sort_key distance (spec_outerTier mgr pos ex)"
  obtain a where a: "slice0 ?cs (min (maxEntityPerception mgr) 7) = take a ?cs"
    using slice0_take by blast
  obtain b where b: "slice0 ?os (maxEntityPerception mgr - real (length (take a ?cs))) = take b ?os"
    using slice0_take by blast
  show ?thesis
  proof (cases "maxEntityPerception mgr - real (length (take a ?cs)) > 0")
    case True
    then have "findNearbyEntities mgr pos ex = take a ?cs @ take b ?os"
      unfolding findNearbyEntities_tiers Let_def a b by simp
    then show ?thesis by blast
  next
    case False
    then have "findNearbyEntities mgr pos ex = take a ?cs @ take 0 ?os"
      unfolding findNearbyEntities_tiers Let_def a by simp
    then show ?thesis by blast
  qed
qed

lemma findNearbyEntities_others:
  "mset (findNearbyEntities mgr pos ex)
     \<subseteq># mset (map (nearbyEntity pos) (otherEntities (entities mgr) ex))"
proof -
  obtain a b where r: "findNearbyEntities mgr pos ex =
     take a (sort_key distance (spec_closeTier mgr pos ex)) @
     take b (sort_key distance (spec_outerTier mgr pos ex))"
    using findNearbyEntities_takes by blast
  have "mset (findNearbyEntities mgr pos ex)
          \<subseteq># mset (sort_key distance (spec_closeTier mgr pos ex)) +
              mset (sort_key distance (spec_outerTier mgr pos ex))"
    unfolding r mset_append by (intro subset_mset.add_mono mset_take_subset)
  also have "\<dots> = mset (spec_closeTier mgr pos ex) + mset (spec_outerTier mgr pos ex)"
    by simp
  finally show ?thesis
    using tiers_subset subset_mset.order_trans by blast
qed

lemma length_take_floor:
  assumes "0 \<le> r"
  shows "real (length (take (nat \<lfloor>r\<rfloor>) xs)) \<le> r"
proof -
  have "real (length (take (nat \<lfloor>r\<rfloor>) xs)) \<le> real (nat \<lfloor>r\<rfloor>)"
    by simp
  also have "\<dots> \<le> r"
    using assms by (simp add: of_nat_nat)
  finally show ?thesis .
qed

lemma length_spec_neighbors:
  assumes "0 \<le> maxEntityPerception mgr"
  shows "real (length (spec_neighbors mgr pos ex)) \<le> maxEntityPerception mgr"
proof -
  define K where "K = maxEntityPerception mgr"
  define taken where "taken = take (nat \<lfloor>min K 7\<rfloor>) (sort_key distance (spec_closeTier mgr pos ex))"
  define fill where "fill = take (nat \<lfloor>K - real (length taken)\<rfloor>) (sort_key distance (spec_outerTier mgr pos ex))"
  have K: "0 \<le> K" using assms by (simp add: K_def)
  then have t: "real (length taken) \<le> min K 7"
    unfolding taken_def by (intro length_take_floor) simp
  then have "0 \<le> K - real (length taken)" by simp
  then have "real (length fill) \<le> K - real (length taken)"
    unfolding fill_def by (rule length_take_floor)
  then have "real (length (taken @ fill)) \<le> K" by simp
  then show ?thesis
    unfolding spec_neighbors_def Let_def K_def [symmetric] taken_def [symmetric] fill_def [symmetric] .
qed

lemma distanceTo_axis_x [simp]: "distanceTo (Vector3 a 0 0) (Vector3 b 0 0) = \<bar>a - b\<bar>"
  by (simp add: distanceTo_def Let_def)

lemma nearbyEntity_at_rest [simp]:
  "0 \<le> d \<Longrightarrow> nearbyEntity (Vector3 0 0 0) (new_Entity (Vector3 d 0 0) None) = seenAt d"
  by (simp add: nearbyEntity_def Let_def getPosition_def getVelocity_def new_Entity_def clone_def
      seenAt_def)

lemma distance_seenAt [simp]: "distance (seenAt d) = d"
  by (simp add: seenAt_def)

lemma entities_flock [simp]:
  "entities (flock K) =
     [new_Entity (Vector3 0 0 0) None, new_Entity (Vector3 3 0 0) None,
      new_Entity (Vector3 1 0 0) None, new_Entity (Vector3 30 0 0) None,
      new_Entity (Vector3 25 0 0) None, new_Entity (Vector3 2 0 0) None,
      new_Entity (Vector3 60 0 0) None]"
  by (simp add: flock_def)

lemma flock_fields [simp]:
  "perceptionRadius (flock K) = 50" "maxEntityPerception (flock K) = K"
  by (simp_all add: flock_def withEntities_def createInstancedMesh_def updateInstancedMesh_def
      new_EntityManager_def)

lemma flock_tiers:
  "spec_closeTier (flock K) (Vector3 0 0 0) 0 = [seenAt 3, seenAt 1, seenAt 2]"
  "spec_outerTier (flock K) (Vector3 0 0 0) 0 = [seenAt 30, seenAt 25]"
  by (simp_all add: spec_closeTier_def spec_outerTier_def otherEntities_def)

lemma flock_sorted:
  "sort_key distance [seenAt 3, seenAt 1, seenAt 2] = [seenAt 1, seenAt 2, seenAt 3]"
  "sort_key distance [seenAt 30, seenAt 25] = [seenAt 25, seenAt 30]"
  by simp_all

lemma flock_query_4:
  "findNearbyEntities (flock 4) (Vector3 0 0 0) 0 = [seenAt 1, seenAt 2, seenAt 3, seenAt 25]"
  by (simp add: findNearbyEntities_tiers flock_tiers flock_sorted Let_def slice0_def
      ToIntegerOrInfinity_def)

lemma flock_query_3:
  "findNearbyEntities (flock 3) (Vector3 0 0 0) 0 = [seenAt 1, seenAt 2, seenAt 3]"
  by (simp add: findNearbyEntities_tiers flock_tiers flock_sorted Let_def slice0_def
      ToIntegerOrInfinity_def)

subsection \<open>Orientation\<close>

lemma mesh_applyOutput:
  "mesh (applyOutput e out dt) = mesh (Entity_update e (acceleration out) dt)"
  by (simp add: applyOutput_def Let_def updateRandomVariables_def split: option.splits)

lemma mesh_quaternion_Entity_update:
  "mesh_quaternion (mesh (Entity_update e acc dt)) =
     (if length_vec (velocity (Entity_update e acc dt)) > 0.1
      then setFromUnitVectors (Vector3 0 1 0) (normalize_vec (velocity (Entity_update e acc dt)))
      else mesh_quaternion (mesh e))"
  by (simp add: Entity_update_def Let_def clone_def)

lemma compose_quaternion_instanceMatrix:
  "compose_quaternion (instanceMatrix e) =
     (if length_vec (velocity e) > 0.1
      then setFromUnitVectors (Vector3 0 1 0) (normalize_vec (velocity e))
      else identity_quat)"
  by (simp add: instanceMatrix_def Let_def getVelocity_def clone_def)

lemma fold_setMatrixAt:
  "n + length es \<le> length buf \<Longrightarrow>
     fold (\<lambda>(index, entity) buf. buf[index := f entity]) (enumerate n es) buf =
       take n buf @ map f es @ drop (n + length es) buf"
proof (induction es arbitrary: n buf)
  case Nil
  then show ?case by simp
next
  case (Cons e es)
  have "fold (\<lambda>(index, entity) buf. buf[index := f entity]) (enumerate n (e # es)) buf =
          fold (\<lambda>(index, entity) buf. buf[index := f entity]) (enumerate (Suc n) es) (buf[n := f e])"
    by simp
  also have "\<dots> = take (Suc n) (buf[n := f e]) @ map f es @ drop (Suc n + length es) (buf[n := f e])"
    using Cons.prems by (intro Cons.IH) simp
  also have "\<dots> = take n buf @ map f (e # es) @ drop (n + length (e # es)) buf"
    using Cons.prems by (simp add: take_Suc_conv_app_nth)
  finally show ?case .
qed

lemma updateInstancedMesh_full:
  assumes "instancedMesh mgr = Some ms" "length ms = length (entities mgr)"
  shows "instancedMesh (updateInstancedMesh mgr) = Some (map instanceMatrix (entities mgr))"
  using assms fold_setMatrixAt [of 0 "entities mgr" ms instanceMatrix]
  by (simp add: updateInstancedMesh_def)

lemma instancedMesh_updateEntity [simp]:
  "instancedMesh (updateEntity dt i mgr) = instancedMesh mgr"
  by (simp add: updateEntity_def Let_def)

lemma instancedMesh_updateEntities [simp]:
  "instancedMesh (updateEntities dt n mgr) = instancedMesh mgr"
  unfolding updateEntities_def by (induction n) simp_all

lemma instancedMesh_EntityManager_update:
  assumes "instancedMesh mgr = Some ms" "length ms = length (entities mgr)"
  shows "instancedMesh (EntityManager_update mgr dt) =
           Some (map instanceMatrix (entities (EntityManager_update mgr dt)))"
  using assms
  by (simp add: EntityManager_update_def updateInstancedMesh_full [of _ ms])

lemma instancedMesh_withEntities:
  "es \<noteq> [] \<Longrightarrow> instancedMesh (withEntities mgr es) = Some (map instanceMatrix es)"
  by (simp add: withEntities_def createInstancedMesh_def updateInstancedMesh_full)

lemma setFromUnitVectors_up_x:
  "setFromUnitVectors (Vector3 0 1 0) (Vector3 1 0 0) =
     \<lparr>quat_x = 0, quat_y = 0, quat_z = - (1 / sqrt 2), quat_w = 1 / sqrt 2\<rparr>"
  by (simp add: setFromUnitVectors_def dot_def EPSILON_def normalize_quat_def length_quat_def Let_def)

lemma braking_before:
  "entities braking = [new_Entity (Vector3 0 50 0) (Some (Vector3 10 0 0))]"
  "movementFunction braking = brakePolicy"
  "instancedMesh braking =
     Some [\<lparr>compose_position = Vector3 0 50 0,
            compose_quaternion = \<lparr>quat_x = 0, quat_y = 0, quat_z = - (1 / sqrt 2), quat_w = 1 / sqrt 2\<rparr>,
            compose_scale = Vector3 1 1 1\<rparr>]"
    by (simp_all add: braking_def instancedMesh_withEntities new_EntityManager_def instanceMatrix_def Let_def
        getPosition_def getVelocity_def new_Entity_def clone_def normalize_vec_def divideScalar_def
        multiplyScalar_def setFromUnitVectors_up_x)

lemma braking_step:
  "entities (EntityManager_update braking 0.1) =
     [applyOutput (new_Entity (Vector3 0 50 0) (Some (Vector3 10 0 0)))
        \<lparr>acceleration = Vector3 (- 100) 0 0, shouldUpdateRandomVariables = None\<rparr> 0.1]"
proof -
  have "length (entities (EntityManager_update braking 0.1)) = 1"
    by (simp add: entities_EntityManager_update braking_before)
  moreover have "entities (EntityManager_update braking 0.1) ! 0 =
     applyOutput (new_Entity (Vector3 0 50 0) (Some (Vector3 10 0 0)))
        \<lparr>acceleration = Vector3 (- 100) 0 0, shouldUpdateRandomVariables = None\<rparr> 0.1"
    using updateEntities_nth [of 0 braking 1 "0.1"]
    by (simp add: entities_EntityManager_update braking_before brakePolicy_def)
  ultimately show ?thesis
    by (cases "entities (EntityManager_update braking 0.1)") auto
qed

lemma braking_velocity:
  "velocity (entities (EntityManager_update braking 0.1) ! 0) = Vector3 0 0 0"
  "position (entities (EntityManager_update braking 0.1) ! 0) = Vector3 0 50 0"
  unfolding braking_step
  by (simp_all add: velocity_applyOutput position_applyOutput position_Entity_update
      velocity_Entity_update Let_def new_Entity_def clone_def add_def multiplyScalar_def maxSpeed_def)

lemma braking_after:
  "instancedMesh (EntityManager_update braking 0.1) =
     Some [\<lparr>compose_position = Vector3 0 50 0, compose_quaternion = identity_quat,
            compose_scale = Vector3 1 1 1\<rparr>]"
proof -
  have "instancedMesh (EntityManager_update braking 0.1) =
          Some (map instanceMatrix (entities (EntityManager_update braking 0.1)))"
    by (rule instancedMesh_EntityManager_update [OF braking_before(3)]) (simp add: braking_before)
  also have "\<dots> = Some [instanceMatrix (entities (EntityManager_update braking 0.1) ! 0)]"
    by (simp add: braking_step)
  finally show ?thesis
    by (simp add: instanceMatrix_def Let_def getPosition_def getVelocity_def clone_def braking_velocity)
qed

subsection \<open>Population initialisation\<close>

lemma centred_scaled:
  fixes r t c :: real
  assumes "0 \<le> r" "r < 1" "0 \<le> c"
  shows "\<bar>(r - 0.5) * t * c\<bar> \<le> 0.5 * c * \<bar>t\<bar>"
proof -
  have "\<bar>r - 0.5\<bar> \<le> 0.5" using assms by linarith
  then have "\<bar>r - 0.5\<bar> * (\<bar>t\<bar> * c) \<le> 0.5 * (\<bar>t\<bar> * c)"
    using assms by (intro mult_right_mono) simp_all
  then show ?thesis using assms by (simp add: abs_mult mult.assoc mult.commute)
qed

lemma randomPosition_initial:
  assumes "\<forall>n. 0 \<le> rnd n \<and> rnd n < 1"
  shows "initialPosition tsize (randomPosition rnd k tsize)"
proof -
  have x: "\<bar>(rnd k - 0.5) * tsize * 0.8\<bar> \<le> 0.4 * \<bar>tsize\<bar>"
    using centred_scaled [of "rnd k" "0.8" tsize] assms by simp
  have z: "\<bar>(rnd (k + 2) - 0.5) * tsize * 0.8\<bar> \<le> 0.4 * \<bar>tsize\<bar>"
    using centred_scaled [of "rnd (k + 2)" "0.8" tsize] assms by simp
  have "0 \<le> rnd (k + 1)" "rnd (k + 1) < 1" using assms by simp_all
  then have y: "20 \<le> 20 + rnd (k + 1) * 80" "20 + rnd (k + 1) * 80 \<le> 100"
    by simp_all
  show ?thesis
    using x y z by (simp add: initialPosition_def randomPosition_def)
qed

lemma randomVelocity_initial:
  assumes "\<forall>n. 0 \<le> rnd n \<and> rnd n < 1"
  shows "initialVelocity (randomVelocity rnd k)"
proof -
  have "\<bar>(rnd k - 0.5) * 1 * 10\<bar> \<le> 0.5 * 10 * \<bar>1\<bar>"
       "\<bar>(rnd (k + 1) - 0.5) * 1 * 5\<bar> \<le> 0.5 * 5 * \<bar>1\<bar>"
       "\<bar>(rnd (k + 2) - 0.5) * 1 * 10\<bar> \<le> 0.5 * 10 * \<bar>1\<bar>"
    using assms by (intro centred_scaled; simp)+
  then show ?thesis
    by (simp add: initialVelocity_def randomVelocity_def)
qed

lemma createEntities_loop_result:
  assumes "\<forall>n. 0 \<le> rnd n \<and> rnd n < 1"
  shows "case createEntities_loop rnd tsize cnt i k es of
           (es', k') \<Rightarrow>
             take (length es) es' = es \<and>
             length es' = length es + (nat \<lceil>cnt\<rceil> - i) \<and>
             (\<forall>e \<in> set (drop (length es) es'). freshEntity tsize e)"
  using assms
proof (induction rnd tsize cnt i k es rule: createEntities_loop.induct)
  case (1 rnd tsize cnt i k es)
  show ?case
  proof (cases "real i < cnt")
    case False
    then have "cnt \<le> real_of_int (int i)" by simp
    then have "\<lceil>cnt\<rceil> \<le> int i"
      by (rule ceiling_le)
    then have z: "nat \<lceil>cnt\<rceil> - i = 0" by linarith
    have "createEntities_loop rnd tsize cnt i k es = (es, k)"
      using False by (subst createEntities_loop.simps) (simp only: if_False)
    then show ?thesis
      unfolding z by simp
  next
    case True
    define entity where "entity = new_Entity (randomPosition rnd k tsize) (Some (randomVelocity rnd (k + 3)))"
    obtain es' k' where r: "createEntities_loop rnd tsize cnt (Suc i) (k + 6) (es @ [entity]) = (es', k')"
      by (cases "createEntities_loop rnd tsize cnt (Suc i) (k + 6) (es @ [entity])")
    have ih: "take (length (es @ [entity])) es' = es @ [entity] \<and>
             length es' = length (es @ [entity]) + (nat \<lceil>cnt\<rceil> - Suc i) \<and>
             (\<forall>e \<in> set (drop (length (es @ [entity])) es'). freshEntity tsize e)"
      using "1.IH" [OF True refl refl refl] "1.prems" r
      by (simp add: entity_def)
    have f: "freshEntity tsize entity"
      by (simp add: freshEntity_def entity_def new_Entity_def clone_def
          randomPosition_initial [OF "1.prems"] randomVelocity_initial [OF "1.prems"])
    have "real_of_int (int i) < cnt" using True by simp
    then have "int i < \<lceil>cnt\<rceil>" by (subst less_ceiling_iff)
    then have n: "nat \<lceil>cnt\<rceil> - i = Suc (nat \<lceil>cnt\<rceil> - Suc i)" by linarith
    have split: "es' = es @ entity # drop (Suc (length es)) es'"
    proof -
      have "es' = take (Suc (length es)) es' @ drop (Suc (length es)) es'"
        by simp
      also have "take (Suc (length es)) es' = es @ [entity]"
        using ih by simp
      finally show ?thesis by simp
    qed
    have t: "take (length es) es' = es"
      by (subst split) simp
    have d: "drop (length es) es' = entity # drop (Suc (length es)) es'"
      by (subst split) simp
    have res: "createEntities_loop rnd tsize cnt i k es = (es', k')"
      using True r by (subst createEntities_loop.simps) (simp only: if_True Let_def entity_def)
    show ?thesis
      unfolding res using ih f t d n by simp
  qed
qed

lemma randomizeEntities_loop_result:
  assumes "\<forall>n. 0 \<le> rnd n \<and> rnd n < 1"
  shows "case randomizeEntities_loop rnd tsize k es of
           (es', k') \<Rightarrow>
             length es' = length es \<and>
             map randomVariables es' = map randomVariables es \<and>
             (\<forall>e \<in> set es'. initialPosition tsize (position e) \<and> initialVelocity (velocity e))"
proof (induction es arbitrary: k)
  case Nil
  then show ?case by simp
next
  case (Cons entity rest)
  obtain rest' k' where r: "randomizeEntities_loop rnd tsize (k + 6) rest = (rest', k')"
    by (cases "randomizeEntities_loop rnd tsize (k + 6) rest")
  show ?case
    using Cons.IH [of "k + 6"] r
    by (simp add: Let_def setPosition_def setVelocity_def
        randomPosition_initial [OF assms] randomVelocity_initial [OF assms])
qed

lemma initialPosition_1000:
  "initialPosition 1000 p \<Longrightarrow>
     - 400 \<le> vec_x p \<and> vec_x p \<le> 400 \<and> - 400 \<le> vec_z p \<and> vec_z p \<le> 400 \<and>
     20 \<le> vec_y p \<and> vec_y p \<le> 100"
  by (simp add: initialPosition_def abs_le_iff)

lemma halves_range: "\<forall>n. 0 \<le> halves n \<and> halves n < 1"
  by (simp add: halves_def)

lemma createEntities_halves:
  "createEntities_loop halves 1000 2 0 0 [] =
     ([new_Entity (Vector3 (- 400) 60 (- 400)) (Some (Vector3 0 (- 2.5) 0)),
       new_Entity (Vector3 (- 400) 60 (- 400)) (Some (Vector3 0 (- 2.5) 0))], 12)"
  by (simp add: createEntities_loop.simps Let_def randomPosition_def randomVelocity_def halves_def)

subsection \<open>Objects and references\<close>

lemma extends_refl [simp]: "extends h h"
  by (simp add: extends_def)

lemma extends_trans: "extends h1 h2 \<Longrightarrow> extends h2 h3 \<Longrightarrow> extends h1 h3"
  by (auto simp: extends_def)

lemma freshNearby_mono: "freshNearby n0 h n \<Longrightarrow> extends h h' \<Longrightarrow> freshNearby n0 h' n"
  by (auto simp: freshNearby_def extends_def)

lemma newVector_fresh:
  assumes "newVector h v = (r, h')"
  shows "r = nextRef h" "nextRef h' = Suc (nextRef h)" "extends h h'" "vectors h' r = v"
  using assms by (auto simp: newVector_def extends_def)

lemma newMap_fresh:
  assumes "newMap h m = (r, h')"
  shows "r = nextRef h" "nextRef h' = Suc (nextRef h)" "extends h h'" "maps h' r = m"
  using assms by (auto simp: newMap_def extends_def)

lemma clone_ref_fresh:
  assumes "clone_ref h r0 = (r, h')"
  shows "r = nextRef h" "nextRef h' = Suc (nextRef h)" "extends h h'" "vectors h' r = vectors h r0"
  using assms newVector_fresh [of h "vectors h r0" r h'] by (simp_all add: clone_ref_def)

lemma getState_heap_fresh:
  assumes "getState_heap h e = (st, h')"
  shows "extends h h'"
    and "nextRef h \<le> state_position_ref st \<and> state_position_ref st < nextRef h'"
    and "nextRef h \<le> state_velocity_ref st \<and> state_velocity_ref st < nextRef h'"
    and "nextRef h \<le> state_randomVariables_ref st \<and> state_randomVariables_ref st < nextRef h'"
proof -
  obtain p h1 where 1: "clone_ref h (position_ref e) = (p, h1)"
    by (cases "clone_ref h (position_ref e)")
  obtain v h2 where 2: "clone_ref h1 (velocity_ref e) = (v, h2)"
    by (cases "clone_ref h1 (velocity_ref e)")
  obtain m h3 where 3: "newMap h2 (maps h2 (randomVariables_ref e)) = (m, h3)"
    by (cases "newMap h2 (maps h2 (randomVariables_ref e))")
  have st: "st = \<lparr>state_position_ref = p, state_velocity_ref = v, state_randomVariables_ref = m\<rparr>"
    and h': "h' = h3"
    using assms by (simp_all add: getState_heap_def 1 2 3)
  note c1 = clone_ref_fresh [OF 1] and c2 = clone_ref_fresh [OF 2] and c3 = newMap_fresh [OF 3]
  show "extends h h'"
    unfolding h' using c1(3) c2(3) c3(3) extends_trans by blast
  show "nextRef h \<le> state_position_ref st \<and> state_position_ref st < nextRef h'"
    and "nextRef h \<le> state_velocity_ref st \<and> state_velocity_ref st < nextRef h'"
    and "nextRef h \<le> state_randomVariables_ref st \<and> state_randomVariables_ref st < nextRef h'"
    unfolding h' st using c1(1,2) c2(1,2) c3(1,2) by simp_all
qed

lemma getState_heap_copies:
  assumes "getState_heap h e = (st, h')" "allocated h e"
  shows "vectors h' (state_position_ref st) = vectors h (position_ref e)"
    and "vectors h' (state_velocity_ref st) = vectors h (velocity_ref e)"
    and "maps h' (state_randomVariables_ref st) = maps h (randomVariables_ref e)"
  using assms
  by (auto simp: getState_heap_def clone_ref_def newVector_def newMap_def allocated_def)

lemma scanEntities_heap_fresh:
  assumes "scanEntities_heap h pos radius ex i xs cs ds = ((cs', ds'), h')"
    and "\<forall>n \<in> set cs \<union> set ds. freshNearby n0 h n"
    and "n0 \<le> nextRef h"
  shows "extends h h' \<and> (\<forall>n \<in> set cs' \<union> set ds'. freshNearby n0 h' n)"
  using assms
proof (induction xs arbitrary: h i cs ds)
  case Nil
  then show ?case by simp
next
  case (Cons other rest)
  show ?case
  proof (cases "i = ex")
    case True
    then show ?thesis using Cons.IH [of h "Suc i" cs ds] Cons.prems by simp
  next
    case False
    obtain p h1 where 1: "getPosition_heap h other = (p, h1)"
      by (cases "getPosition_heap h other")
    note c1 = clone_ref_fresh [OF 1 [unfolded getPosition_heap_def]]
    define d where "d = distanceTo (vectors h1 pos) (vectors h1 p)"
    have old1: "\<forall>n \<in> set cs \<union> set ds. freshNearby n0 h1 n"
      using Cons.prems(2) c1(3) freshNearby_mono by blast
    have n1: "n0 \<le> nextRef h1" using Cons.prems(3) c1(2) by simp
    show ?thesis
    proof (cases "d \<le> radius")
      case far: False
      then have "scanEntities_heap h1 pos radius ex (Suc i) rest cs ds = ((cs', ds'), h')"
        using Cons.prems(1) False 1 by (simp add: d_def Let_def)
      from Cons.IH [OF this old1 n1] show ?thesis
        using c1(3) extends_trans by blast
    next
      case near: True
      obtain v h2 where 2: "getVelocity_heap h1 other = (v, h2)"
        by (cases "getVelocity_heap h1 other")
      note c2 = clone_ref_fresh [OF 2 [unfolded getVelocity_heap_def]]
      define nb where "nb = \<lparr>nearby_position_ref = p, nearby_velocity_ref = v, nearby_distance = d\<rparr>"
      have fnb: "freshNearby n0 h2 nb"
        using c1(1,2) c2(1,2) Cons.prems(3) by (simp add: freshNearby_def nb_def)
      have old2: "\<forall>n \<in> set cs \<union> set ds. freshNearby n0 h2 n"
        using old1 c2(3) freshNearby_mono by blast
      have n2: "n0 \<le> nextRef h2" using n1 c2(2) by simp
      have e02: "extends h h2" using c1(3) c2(3) extends_trans by blast
      show ?thesis
      proof (cases "d \<le> closeRange")
        case True
        then have "scanEntities_heap h2 pos radius ex (Suc i) rest (cs @ [nb]) ds = ((cs', ds'), h')"
          using Cons.prems(1) False near 1 2 by (simp add: d_def [symmetric] Let_def nb_def)
        moreover have "\<forall>n \<in> set (cs @ [nb]) \<union> set ds. freshNearby n0 h2 n"
          using old2 fnb by auto
        ultimately show ?thesis
          using Cons.IH [of h2 "Suc i" "cs @ [nb]" ds] n2 e02 extends_trans by blast
      next
        case False
        then have "scanEntities_heap h2 pos radius ex (Suc i) rest cs (ds @ [nb]) = ((cs', ds'), h')"
          using Cons.prems(1) \<open>i \<noteq> ex\<close> near 1 2 by (simp add: d_def [symmetric] Let_def nb_def)
        moreover have "\<forall>n \<in> set cs \<union> set (ds @ [nb]). freshNearby n0 h2 n"
          using old2 fnb by auto
        ultimately show ?thesis
          using Cons.IH [of h2 "Suc i" cs "ds @ [nb]"] n2 e02 extends_trans by blast
      qed
    qed
  qed
qed

lemma set_slice0: "set (slice0 xs e) \<subseteq> set xs"
  using slice0_take [of xs e] set_take_subset by metis

lemma findNearbyEntities_heap_fresh:
  assumes "findNearbyEntities_heap h es radius maxPerception pos ex = (nearby, h')"
  shows "extends h h' \<and> (\<forall>n \<in> set nearby. freshNearby (nextRef h) h' n)"
proof -
  obtain cs ds h1 where s: "scanEntities_heap h pos radius ex 0 es [] [] = ((cs, ds), h1)"
    by (metis surj_pair)
  have f: "extends h h1 \<and> (\<forall>n \<in> set cs \<union> set ds. freshNearby (nextRef h) h1 n)"
    using scanEntities_heap_fresh [OF s, of "nextRef h"] by simp
  have h': "h' = h1" using assms s by (simp add: findNearbyEntities_heap_def Let_def)
  have "set nearby \<subseteq> set cs \<union> set ds"
  proof -
    have "set nearby \<subseteq> set (slice0 (sort_key nearby_distance cs) (min maxPerception 7)) \<union>
            set (slice0 (sort_key nearby_distance ds)
                   (maxPerception - real (length (slice0 (sort_key nearby_distance cs) (min maxPerception 7)))))"
      using assms s by (auto simp: findNearbyEntities_heap_def Let_def split: if_splits)
    also have "\<dots> \<subseteq> set (sort_key nearby_distance cs) \<union> set (sort_key nearby_distance ds)"
      using set_slice0 by (intro Un_mono)
    finally show ?thesis by simp
  qed
  then show ?thesis using f h' by blast
qed

lemma getTerrainAhead_heap_fresh:
  assumes "getTerrainAhead_heap h n acc = (terrain, h')"
    and "\<forall>t \<in> set acc. n0 \<le> terrain_normal_ref t \<and> terrain_normal_ref t < nextRef h"
    and "n0 \<le> nextRef h"
  shows "extends h h' \<and>
         (\<forall>t \<in> set terrain. n0 \<le> terrain_normal_ref t \<and> terrain_normal_ref t < nextRef h')"
  using assms
proof (induction n arbitrary: h acc)
  case 0
  then show ?case by simp
next
  case (Suc n)
  obtain r h1 where 1: "newVector h (Vector3 0 1 0) = (r, h1)"
    by (cases "newVector h (Vector3 0 1 0)")
  note c = newVector_fresh [OF 1]
  let ?acc = "acc @ [\<lparr>terrain_height_val = 0, terrain_type_val = field, terrain_normal_ref = r\<rparr>]"
  have "getTerrainAhead_heap h1 n ?acc = (terrain, h')"
    using Suc.prems(1) 1 by simp
  moreover have "\<forall>t \<in> set ?acc. n0 \<le> terrain_normal_ref t \<and> terrain_normal_ref t < nextRef h1"
    using Suc.prems(2,3) c(1,2) by auto
  moreover have "n0 \<le> nextRef h1" using Suc.prems(3) c(2) by simp
  ultimately have "extends h1 h' \<and>
         (\<forall>t \<in> set terrain. n0 \<le> terrain_normal_ref t \<and> terrain_normal_ref t < nextRef h')"
    by (rule Suc.IH)
  then show ?case using c(3) extends_trans by blast
qed

lemma movementInput_heap_fresh:
  assumes "movementInput_heap h es radius maxPerception dt index = (inp, h')"
  shows "extends h h'"
    and "vectorRefs inp \<union> mapRefs inp \<subseteq> {nextRef h ..< nextRef h'}"
proof -
  obtain st h1 where 1: "getState_heap h (es ! index) = (st, h1)"
    by (cases "getState_heap h (es ! index)")
  obtain nearby h2 where 2:
    "findNearbyEntities_heap h1 es radius maxPerception (state_position_ref st) index = (nearby, h2)"
    by (cases "findNearbyEntities_heap h1 es radius maxPerception (state_position_ref st) index")
  obtain terrain h3 where 3: "getTerrainAhead_heap h2 5 [] = (terrain, h3)"
    by (cases "getTerrainAhead_heap h2 5 []")
  have inp: "inp = \<lparr>currentState_refs = st, nearbyEntities_refs = nearby,
                     terrainAhead_refs = terrain, deltaTime_val = dt\<rparr>" and h': "h' = h3"
    using assms by (simp_all add: movementInput_heap_def 1 2 3)
  note s = getState_heap_fresh [OF 1]
  note f = findNearbyEntities_heap_fresh [OF 2]
  have t: "extends h2 h3 \<and>
         (\<forall>t \<in> set terrain. nextRef h2 \<le> terrain_normal_ref t \<and> terrain_normal_ref t < nextRef h3)"
    using getTerrainAhead_heap_fresh [OF 3, of "nextRef h2"] by simp
  have le: "nextRef h \<le> nextRef h1" "nextRef h1 \<le> nextRef h2" "nextRef h2 \<le> nextRef h3"
    using s(1) f t by (simp_all add: extends_def)
  show "extends h h'"
    unfolding h' using s(1) f t extends_trans by blast
  have "\<forall>n \<in> set nearby. nextRef h \<le> nearby_position_ref n \<and> nearby_position_ref n < nextRef h3 \<and>
                          nextRef h \<le> nearby_velocity_ref n \<and> nearby_velocity_ref n < nextRef h3"
    using f le by (fastforce simp: freshNearby_def)
  moreover have "\<forall>t \<in> set terrain. nextRef h \<le> terrain_normal_ref t \<and> terrain_normal_ref t < nextRef h3"
    using t le by fastforce
  ultimately show "vectorRefs inp \<union> mapRefs inp \<subseteq> {nextRef h ..< nextRef h'}"
    unfolding h' inp vectorRefs_def mapRefs_def using s(2,3,4) le by auto
qed

lemma copyOf_mono:
  "copyOf h0 E h n \<Longrightarrow> freshNearby n0 h n \<Longrightarrow> extends h h' \<Longrightarrow> copyOf h0 E h' n"
  by (auto simp: copyOf_def freshNearby_def extends_def)

lemma clone_ref_value:
  assumes "clone_ref h r0 = (r, h')" "extends h0 h" "r0 < nextRef h0"
  shows "vectors h' r = vectors h0 r0"
  using assms clone_ref_fresh(4) [OF assms(1)] by (simp add: extends_def)

lemma scanEntities_heap_copies:
  assumes "scanEntities_heap h pos radius ex i xs cs ds = ((cs', ds'), h')"
    and "\<forall>n \<in> set cs \<union> set ds. freshNearby n0 h n \<and> copyOf h0 E h n"
    and "n0 \<le> nextRef h" and "extends h0 h"
    and "\<forall>e \<in> set xs. allocated h0 e" and "set xs \<subseteq> E"
  shows "\<forall>n \<in> set cs' \<union> set ds'. copyOf h0 E h' n"
  using assms
proof (induction xs arbitrary: h i cs ds)
  case Nil
  then show ?case by simp
next
  case (Cons other rest)
  have rest: "\<forall>e \<in> set rest. allocated h0 e" "set rest \<subseteq> E"
    using Cons.prems(5,6) by auto
  have other: "allocated h0 other" "other \<in> E"
    using Cons.prems(5,6) by auto
  show ?case
  proof (cases "i = ex")
    case True
    then have "scanEntities_heap h pos radius ex (Suc i) rest cs ds = ((cs', ds'), h')"
      using Cons.prems(1) by simp
    from Cons.IH [OF this Cons.prems(2,3,4) rest] show ?thesis .
  next
    case False
    obtain p h1 where 1: "getPosition_heap h other = (p, h1)"
      by (cases "getPosition_heap h other")
    note c1 = clone_ref_fresh [OF 1 [unfolded getPosition_heap_def]]
    have vp: "vectors h1 p = vectors h0 (position_ref other)"
      using clone_ref_value [OF 1 [unfolded getPosition_heap_def] Cons.prems(4)] other(1)
      by (simp add: allocated_def)
    define d where "d = distanceTo (vectors h1 pos) (vectors h1 p)"
    have old1: "\<forall>n \<in> set cs \<union> set ds. freshNearby n0 h1 n \<and> copyOf h0 E h1 n"
      using Cons.prems(2) c1(3) freshNearby_mono copyOf_mono by blast
    have n1: "n0 \<le> nextRef h1" using Cons.prems(3) c1(2) by simp
    have e1: "extends h0 h1" using Cons.prems(4) c1(3) extends_trans by blast
    show ?thesis
    proof (cases "d \<le> radius")
      case far: False
      then have "scanEntities_heap h1 pos radius ex (Suc i) rest cs ds = ((cs', ds'), h')"
        using Cons.prems(1) False 1 by (simp add: d_def Let_def)
      from Cons.IH [OF this old1 n1 e1 rest] show ?thesis .
    next
      case near: True
      obtain v h2 where 2: "getVelocity_heap h1 other = (v, h2)"
        by (cases "getVelocity_heap h1 other")
      note c2 = clone_ref_fresh [OF 2 [unfolded getVelocity_heap_def]]
      have vv: "vectors h2 v = vectors h0 (velocity_ref other)"
        using clone_ref_value [OF 2 [unfolded getVelocity_heap_def] e1] other(1)
        by (simp add: allocated_def)
      have vp2: "vectors h2 p = vectors h0 (position_ref other)"
        using vp c1(1,2) c2(3) by (simp add: extends_def)
      define nb where "nb = \<lparr>nearby_position_ref = p, nearby_velocity_ref = v, nearby_distance = d\<rparr>"
      have fnb: "freshNearby n0 h2 nb \<and> copyOf h0 E h2 nb"
        using c1(1,2) c2(1,2) Cons.prems(3) vv vp2 other(2)
        by (auto simp: freshNearby_def copyOf_def nb_def)
      have old2: "\<forall>n \<in> set cs \<union> set ds. freshNearby n0 h2 n \<and> copyOf h0 E h2 n"
        using old1 c2(3) freshNearby_mono copyOf_mono by blast
      have n2: "n0 \<le> nextRef h2" using n1 c2(2) by simp
      have e2: "extends h0 h2" using e1 c2(3) extends_trans by blast
      show ?thesis
      proof (cases "d \<le> closeRange")
        case True
        then have s: "scanEntities_heap h2 pos radius ex (Suc i) rest (cs @ [nb]) ds = ((cs', ds'), h')"
          using Cons.prems(1) False near 1 2 by (simp add: d_def [symmetric] Let_def nb_def)
        have "\<forall>n \<in> set (cs @ [nb]) \<union> set ds. freshNearby n0 h2 n \<and> copyOf h0 E h2 n"
          using old2 fnb by auto
        from Cons.IH [OF s this n2 e2 rest] show ?thesis .
      next
        case False
        then have s: "scanEntities_heap h2 pos radius ex (Suc i) rest cs (ds @ [nb]) = ((cs', ds'), h')"
          using Cons.prems(1) \<open>i \<noteq> ex\<close> near 1 2 by (simp add: d_def [symmetric] Let_def nb_def)
        have "\<forall>n \<in> set cs \<union> set (ds @ [nb]). freshNearby n0 h2 n \<and> copyOf h0 E h2 n"
          using old2 fnb by auto
        from Cons.IH [OF s this n2 e2 rest] show ?thesis .
      qed
    qed
  qed
qed

lemma movementInput_heap_nearby:
  assumes "movementInput_heap h es radius maxPerception dt index = (inp, h')"
    and "\<forall>e \<in> set es. allocated h e"
  shows "\<forall>n \<in> set (nearbyEntities_refs inp). copyOf h (set es) h' n"
proof -
  obtain st h1 where 1: "getState_heap h (es ! index) = (st, h1)"
    by (cases "getState_heap h (es ! index)")
  obtain nearby h2 where 2:
    "findNearbyEntities_heap h1 es radius maxPerception (state_position_ref st) index = (nearby, h2)"
    by (cases "findNearbyEntities_heap h1 es radius maxPerception (state_position_ref st) index")
  obtain terrain h3 where 3: "getTerrainAhead_heap h2 5 [] = (terrain, h3)"
    by (cases "getTerrainAhead_heap h2 5 []")
  have inp: "nearbyEntities_refs inp = nearby" and h': "h' = h3"
    using assms(1) by (auto simp: movementInput_heap_def 1 2 3)
  obtain cs ds hs where s:
    "scanEntities_heap h1 (state_position_ref st) radius index 0 es [] [] = ((cs, ds), hs)"
    by (metis surj_pair)
  have hs: "hs = h2" using 2 s by (simp add: findNearbyEntities_heap_def Let_def)
  have e01: "extends h h1" using getState_heap_fresh(1) [OF 1] .
  have c: "\<forall>n \<in> set cs \<union> set ds. copyOf h (set es) h2 n"
    using scanEntities_heap_copies [OF s, of "nextRef h1" h "set es"] e01 assms(2) hs by simp
  have sub: "set nearby \<subseteq> set cs \<union> set ds"
  proof -
    have "set nearby \<subseteq> set (slice0 (sort_key nearby_distance cs) (min maxPerception 7)) \<union>
            set (slice0 (sort_key nearby_distance ds)
                   (maxPerception - real (length (slice0 (sort_key nearby_distance cs) (min maxPerception 7)))))"
      using 2 s by (auto simp: findNearbyEntities_heap_def Let_def split: if_splits)
    also have "\<dots> \<subseteq> set (sort_key nearby_distance cs) \<union> set (sort_key nearby_distance ds)"
      using set_slice0 by (intro Un_mono)
    finally show ?thesis by simp
  qed
  have f: "\<forall>n \<in> set nearby. freshNearby (nextRef h1) h2 n"
    using findNearbyEntities_heap_fresh [OF 2] by blast
  have e23: "extends h2 h3"
    using getTerrainAhead_heap_fresh [OF 3, of "nextRef h2"] by simp
  show ?thesis
    unfolding inp h' using c sub f e23 copyOf_mono by blast
qed

lemma movementInput_heap_state:
  assumes "movementInput_heap h es radius maxPerception dt index = (inp, h')"
    and "allocated h (es ! index)"
  shows "vectors h' (state_position_ref (currentState_refs inp)) = vectors h (position_ref (es ! index))"
    and "vectors h' (state_velocity_ref (currentState_refs inp)) = vectors h (velocity_ref (es ! index))"
    and "maps h' (state_randomVariables_ref (currentState_refs inp)) = maps h (randomVariables_ref (es ! index))"
proof -
  obtain st h1 where 1: "getState_heap h (es ! index) = (st, h1)"
    by (cases "getState_heap h (es ! index)")
  obtain nearby h2 where 2:
    "findNearbyEntities_heap h1 es radius maxPerception (state_position_ref st) index = (nearby, h2)"
    by (cases "findNearbyEntities_heap h1 es radius maxPerception (state_position_ref st) index")
  obtain terrain h3 where 3: "getTerrainAhead_heap h2 5 [] = (terrain, h3)"
    by (cases "getTerrainAhead_heap h2 5 []")
  have inp: "currentState_refs inp = st" and h': "h' = h3"
    using assms(1) by (auto simp: movementInput_heap_def 1 2 3)
  have "extends h2 h3"
    using getTerrainAhead_heap_fresh [OF 3, of "nextRef h2"] by simp
  then have e: "extends h1 h3"
    using findNearbyEntities_heap_fresh [OF 2] extends_trans by blast
  note s = getState_heap_fresh [OF 1] and c = getState_heap_copies [OF 1 assms(2)]
  show "vectors h' (state_position_ref (currentState_refs inp)) = vectors h (position_ref (es ! index))"
    and "vectors h' (state_velocity_ref (currentState_refs inp)) = vectors h (velocity_ref (es ! index))"
    and "maps h' (state_randomVariables_ref (currentState_refs inp)) = maps h (randomVariables_ref (es ! index))"
    unfolding inp h' using e s(2,3,4) c by (simp_all add: extends_def)
qed

lemma twoObjects_nearby:
  "nearbyEntities_refs (fst (movementInput_heap twoObjectsHeap twoObjects 50 7 0.1 0)) =
     [\<lparr>nearby_position_ref = 9, nearby_velocity_ref = 10, nearby_distance = 6\<rparr>]"
  by (simp add: movementInput_heap_def getState_heap_def clone_ref_def newVector_def newMap_def
      twoObjects_def twoObjectsHeap_def findNearbyEntities_heap_def getPosition_heap_def
      getVelocity_heap_def Let_def closeRange_def slice0_def ToIntegerOrInfinity_def
      split_beta)

subsection \<open>What a callback perceives\<close>

lemma updateEntity_fields:
  "updateEntity dt i mgr = mgr\<lparr>entities := entities (updateEntity dt i mgr)\<rparr>"
  by (simp add: updateEntity_def Let_def)

lemma fold_updateEntity_fields:
  "fold (updateEntity dt) is mgr = mgr\<lparr>entities := entities (fold (updateEntity dt) is mgr)\<rparr>"
proof (induction "is" arbitrary: mgr)
  case Nil
  then show ?case by simp
next
  case (Cons i "is")
  have "fold (updateEntity dt) (i # is) mgr = fold (updateEntity dt) is (updateEntity dt i mgr)"
    by simp
  also have "\<dots> = (updateEntity dt i mgr)\<lparr>entities := entities (fold (updateEntity dt) is (updateEntity dt i mgr))\<rparr>"
    by (rule Cons.IH)
  also have "\<dots> = mgr\<lparr>entities := entities (fold (updateEntity dt) is (updateEntity dt i mgr))\<rparr>"
    by (subst updateEntity_fields) simp
  finally show ?case by simp
qed

lemma updateEntities_fields:
  "updateEntities dt n mgr = mgr\<lparr>entities := entities (updateEntities dt n mgr)\<rparr>"
  unfolding updateEntities_def by (rule fold_updateEntity_fields)

lemma movementFunction_updateEntities [simp]:
  "movementFunction (updateEntities dt n mgr) = movementFunction mgr"
  by (subst updateEntities_fields) simp

lemma updateEntities_perceived:
  assumes "i \<le> length (entities mgr)"
  shows "entities (updateEntities dt i mgr) =
           map (\<lambda>j. if j < i then entities (EntityManager_update mgr dt) ! j else entities mgr ! j)
             [0..<length (entities mgr)]"
proof (rule nth_equalityI)
  show "length (entities (updateEntities dt i mgr)) =
          length (map (\<lambda>j. if j < i then entities (EntityManager_update mgr dt) ! j else entities mgr ! j)
             [0..<length (entities mgr)])"
    by simp
next
  fix j assume "j < length (entities (updateEntities dt i mgr))"
  then have j: "j < length (entities mgr)" by simp
  show "entities (updateEntities dt i mgr) ! j =
          map (\<lambda>j. if j < i then entities (EntityManager_update mgr dt) ! j else entities mgr ! j)
             [0..<length (entities mgr)] ! j"
  proof (cases "j < i")
    case True
    then show ?thesis
      using j assms
      by (simp add: entities_EntityManager_update updateEntities_earlier [of j i "length (entities mgr)"])
  next
    case False
    then show ?thesis using j by (simp add: updateEntities_later)
  qed
qed

lemma set_otherEntities:
  assumes "x \<in> set (otherEntities es i)"
  shows "\<exists>j < length es. j \<noteq> i \<and> x = es ! j"
proof -
  from assms consider "x \<in> set (take i es)" | "x \<in> set (drop (Suc i) es)"
    by (auto simp: otherEntities_def)
  then show ?thesis
  proof cases
    case 1
    then obtain k where "k < length (take i es)" "x = take i es ! k"
      by (auto simp: in_set_conv_nth)
    then show ?thesis by (intro exI [of _ k]) auto
  next
    case 2
    then obtain k where k: "k < length (drop (Suc i) es)" "x = drop (Suc i) es ! k"
      by (auto simp: in_set_conv_nth)
    then show ?thesis by (intro exI [of _ "Suc i + k"]) auto
  qed
qed

lemma findNearbyEntities_entries:
  assumes "n \<in> set (findNearbyEntities mgr pos i)"
  shows "\<exists>j < length (entities mgr). j \<noteq> i \<and> n = nearbyEntity pos (entities mgr ! j)"
proof -
  have "n \<in># mset (map (nearbyEntity pos) (otherEntities (entities mgr) i))"
    using assms findNearbyEntities_others [of mgr pos i] by (meson in_multiset_in_set mset_subset_eqD)
  then obtain e where "e \<in> set (otherEntities (entities mgr) i)" "n = nearbyEntity pos e"
    by auto
  then show ?thesis using set_otherEntities by blast
qed

lemma lineAgents_fields:
  "entities lineAgents =
     [new_Entity (Vector3 0 0 0) None, new_Entity (Vector3 5 0 0) None, new_Entity (Vector3 10 0 0) None]"
  "movementFunction lineAgents = leftPolicy"
  "maxEntityPerception lineAgents = 7"
  "perceptionRadius lineAgents = 50"
  by (simp_all add: lineAgents_def withEntities_def createInstancedMesh_def updateInstancedMesh_def
      new_EntityManager_def)

lemma lineAgents_moved:
  "position (applyOutput (new_Entity (Vector3 x 0 0) None) (leftPolicy input) (1/2)) = Vector3 (x - 1) 0 0"
  "velocity (applyOutput (new_Entity (Vector3 x 0 0) None) (leftPolicy input) (1/2)) = Vector3 (- 2) 0 0"
  by (simp_all add: position_applyOutput velocity_applyOutput position_Entity_update
      velocity_Entity_update leftPolicy_def Let_def new_Entity_def clone_def add_def
      multiplyScalar_def maxSpeed_def)

subsection \<open>Double-precision arithmetic\<close>

text \<open>
  \<open>bit_length\<close> and \<open>isqrt\<close> are characterised by their bounds, so that their value at a
  numeral is checked by two comparisons.
\<close>

lemma bit_length_unique:
  assumes "2 ^ l \<le> n" "n < 2 ^ Suc l"
  shows "bit_length n = Suc l"
  using assms
proof (induction l arbitrary: n)
  case 0
  then have "n = 1" by simp
  then show ?case by (simp add: bit_length.simps)
next
  case (Suc l)
  have "2 ^ l \<le> n div 2" "n div 2 < 2 ^ Suc l"
    using Suc.prems by auto
  then have "bit_length (n div 2) = Suc l" by (rule Suc.IH)
  moreover have "n \<noteq> 0" using Suc.prems by auto
  ultimately show ?case by (subst bit_length.simps) simp
qed

lemma bit_length_bounds:
  "n \<noteq> 0 \<Longrightarrow> 2 ^ (bit_length n - 1) \<le> n \<and> n < 2 ^ bit_length n"
proof (induction n rule: bit_length.induct)
  case (1 n)
  show ?case
  proof (cases "n div 2 = 0")
    case True
    with "1.prems" have "n = 1" by (metis One_nat_def div_less_iff_less_mult less_2_cases_iff mult.commute nat_neq_iff pos2 zero_less_numeral div_eq_0_iff)
    then show ?thesis by (simp add: bit_length.simps)
  next
    case False
    from "1.IH" [OF "1.prems" False] have ih: "2 ^ (bit_length (n div 2) - 1) \<le> n div 2" "n div 2 < 2 ^ bit_length (n div 2)"
      by simp_all
    have pos: "0 < bit_length (n div 2)"
      using False by (subst bit_length.simps) simp
    have b: "bit_length n = Suc (bit_length (n div 2))"
      using "1.prems" by (subst bit_length.simps) simp
    have "2 ^ bit_length (n div 2) \<le> n"
    proof -
      have "2 * 2 ^ (bit_length (n div 2) - 1) \<le> 2 * (n div 2)" using ih(1) by simp
      moreover have "2 * 2 ^ (bit_length (n div 2) - 1) = (2::nat) ^ bit_length (n div 2)"
        using pos by (metis Suc_pred' power_Suc)
      ultimately show ?thesis by (metis le_trans mult.commute div_times_less_eq_dividend)
    qed
    moreover have "n < 2 ^ Suc (bit_length (n div 2))"
      using ih(2) by auto
    ultimately show ?thesis by (simp add: b)
  qed
qed

lemma isqrt_bits_correct:
  assumes "r * r \<le> n" "n < (r + 2 ^ b) * (r + 2 ^ b)"
  shows "isqrt_bits b n r * isqrt_bits b n r \<le> n \<and>
         n < (isqrt_bits b n r + 1) * (isqrt_bits b n r + 1)"
  using assms by (induction b arbitrary: r) (auto simp: algebra_simps)

lemma isqrt_correct: "isqrt n * isqrt n \<le> n \<and> n < (isqrt n + 1) * (isqrt n + 1)"
proof (cases "n = 0")
  case True
  then show ?thesis by (simp add: isqrt_def bit_length.simps)
next
  case False
  then have "n < 2 ^ bit_length n" using bit_length_bounds by blast
  also have "\<dots> \<le> 2 ^ bit_length n * 2 ^ bit_length n" by simp
  finally have "n < (0 + 2 ^ bit_length n) * (0 + 2 ^ bit_length n)" by simp
  then show ?thesis
    unfolding isqrt_def by (intro isqrt_bits_correct) simp_all
qed

lemma isqrt_unique:
  assumes "r * r \<le> n" "n < (r + 1) * (r + 1)"
  shows "isqrt n = r"
proof -
  let ?q = "isqrt n"
  have q: "?q * ?q \<le> n" "n < (?q + 1) * (?q + 1)" using isqrt_correct by blast+
  have "\<not> ?q < r"
  proof
    assume "?q < r"
    then have "?q + 1 \<le> r" by linarith
    then have "(?q + 1) * (?q + 1) \<le> r * r" by (simp add: mult_le_mono del: mult_Suc mult_Suc_right)
    with q(2) assms(1) show False by simp
  qed
  moreover have "\<not> r < ?q"
  proof
    assume "r < ?q"
    then have "r + 1 \<le> ?q" by linarith
    then have "(r + 1) * (r + 1) \<le> ?q * ?q" by (simp add: mult_le_mono del: mult_Suc mult_Suc_right)
    with q(1) assms(2) show False by simp
  qed
  ultimately show ?thesis by simp
qed

lemma make_double_zero [simp]: "make_double s 0 E sticky = Finite s 0 0"
  by (simp add: make_double_def)

text \<open>
  The literals, and the roundings and square roots that the updates of \<open>atRest\<close> and \<open>pushed\<close>
  perform.
\<close>

lemma bit_length_literals:
  "bit_length 1 = 1"
  "bit_length 16 = 5"
  "bit_length 50 = 6"
  "bit_length 160 = 8"
  "bit_length 480 = 9"
  "bit_length 1120 = 11"
  by (simp_all add: bit_length.simps)

lemma double_of_nat_literals:
  "double_of_nat 0 = Finite False 0 0"
  "double_of_nat 1 = Finite False 4503599627370496 (- 52)"
  "double_of_nat 16 = Finite False 4503599627370496 (- 48)"
  "double_of_nat 50 = Finite False 7036874417766400 (- 47)"
  "double_of_nat 160 = Finite False 5629499534213120 (- 45)"
  "double_of_nat 480 = Finite False 8444249301319680 (- 44)"
  "double_of_nat 1120 = Finite False 4925812092436480 (- 42)"
  "double_of_nat (Suc 0) = Finite False 4503599627370496 (- 52)"
  using bit_length_literals
  by (simp_all add: double_of_nat_def make_double_def round_shift_def Let_def)

lemma huge: "huge = Finite False 5883593420661338 612"
proof -
  have "bit_length (10 ^ 200) = 665"
    using bit_length_unique [of 664 "10 ^ 200"] by simp
  then show ?thesis
    by (simp add: huge_def double_of_nat_def make_double_def round_shift_def Let_def)
qed

lemma bit_length_mantissas:
  "bit_length 4503599627370496 = 53"
  "bit_length 4925812092436480 = 53"
  "bit_length 5405125801231177 = 53"
  "bit_length 5496738102946960 = 53"
  "bit_length 5629499534213120 = 53"
  "bit_length 6412861120104787 = 53"
  "bit_length 7036874417766401 = 53"
  "bit_length 7328984137262612 = 53"
  "bit_length 8444249301319680 = 53"
  "bit_length 43980465111040009 = 56"
  "bit_length 51896948831027200 = 56"
  "bit_length 298172644820610218 = 59"
  "bit_length 351843720888320000 = 59"
  "bit_length 2901854818381712785966500 = 82"
  "bit_length 3777893186295716514554183 = 82"
  "bit_length 22183885503994014526192306094080 = 105"
  "bit_length 24263624769993453388022834790400 = 105"
  "bit_length 24755107672185136136973356892160 = 105"
  "bit_length 25353012004564588029934064107520 = 105"
  "bit_length 26497349136889903738102269083648 = 105"
  "bit_length 28880958950882660327668792164352 = 105"
  "bit_length 30214129772388944631036573241600 = 105"
  "bit_length 31686537820396969418196366228640 = 105"
  "bit_length 31691265005705735037417580134400 = 105"
  "bit_length 33006810229580170726090368614400 = 105"
  "bit_length 33006810229580175511164972695552 = 105"
  "bit_length 33006810229580177762964786380800 = 105"
  "bit_length 34616671539649384210829287950244 = 105"
  "bit_length 36967627457129799576098268278158 = 105"
  "bit_length 36967627457129803035170234695680 = 105"
  "bit_length 38029518006846882044901096161280 = 105"
  "bit_length 41124787745751623356373860315369 = 106"
  "bit_length 42248717093862618204785124259208 = 106"
  "bit_length 42248717093862632040194553937920 = 106"
  "bit_length 49510215344370266644447179571200 = 106"
  "bit_length 49510215344370273681321597337600 = 106"
  "bit_length 53714008484246993133440653062544 = 106"
  "bit_length 57761917901765311085188376166400 = 106"
  "bit_length 57761917901765318122062793932800 = 106"
  "bit_length 63373075640793948060291830906880 = 106"
  "bit_length 71305346262837903834189555302400 = 106"
  "bit_length 207691874341393075626429335233525 = 108"
  "bit_length 270391789400720842816400970282711 = 108"
  "bit_length 324518553658426726783156020576256 = 109"
  by (simp_all add: bit_length.simps)

lemma bit_length_shifted:
  "bit_length 6249999999999999810832013828189760371715645471593897665515109434396678027222129720887271150294140741751719525998367650511383483398017405289961565065452492366938974441674373863198863331635445553430528 = 661"
  using bit_length_unique [of 660 6249999999999999810832013828189760371715645471593897665515109434396678027222129720887271150294140741751719525998367650511383483398017405289961565065452492366938974441674373863198863331635445553430528] by simp

lemma make_double_roundings:
  "make_double False 4925812092436480 (- 46) False = Finite False 4925812092436480 (- 46)"
  "make_double False 5496738102946960 (- 52) False = Finite False 5496738102946960 (- 52)"
  "make_double False 5496738102946960 (- 48) False = Finite False 5496738102946960 (- 48)"
  "make_double False 5629499534213120 (- 49) False = Finite False 5629499534213120 (- 49)"
  "make_double False 6412861120104787 (- 51) False = Finite False 6412861120104787 (- 51)"
  "make_double False 6412861120104787 (- 47) False = Finite False 6412861120104787 (- 47)"
  "make_double False 7328984137262612 (- 54) False = Finite False 7328984137262612 (- 54)"
  "make_double False 7328984137262612 (- 50) False = Finite False 7328984137262612 (- 50)"
  "make_double False 8444249301319680 (- 48) False = Finite False 8444249301319680 (- 48)"
  "make_double False 43980465111040009 (- 44) False = Finite False 5497558138880001 (- 41)"
  "make_double False 51896948831027200 (- 43) False = Finite False 6487118603878400 (- 40)"
  "make_double False 298172644820610218 (- 47) False = Finite False 4658947575322035 (- 41)"
  "make_double False 351843720888320000 (- 46) False = Finite False 5497558138880000 (- 40)"
  "make_double False 2901854818381712785966500 (- 75) True = Finite False 5405125801231177 (- 46)"
  "make_double False 3777893186295716514554183 (- 76) True = Finite False 7036874417766401 (- 47)"
  "make_double False 22183885503994014526192306094080 (- 98) False = Finite False 4925812092436480 (- 46)"
  "make_double False 24263624769993453388022834790400 (- 92) False = Finite False 5387606976102400 (- 40)"
  "make_double False 24755107672185136136973356892160 (- 104) False = Finite False 5496738102946960 (- 52)"
  "make_double False 25353012004564588029934064107520 (- 101) False = Finite False 5629499534213120 (- 49)"
  "make_double False 26497349136889903738102269083648 556 False = Finite False 5883593420661338 608"
  "make_double False 28880958950882660327668792164352 (- 103) False = Finite False 6412861120104787 (- 51)"
  "make_double False 30214129772388944631036573241600 (- 96) False = Finite False 6708884508463729 (- 44)"
  "make_double False 31686537820396969418196366228640 (- 106) False = Finite False 7035824771772108 (- 54)"
  "make_double False 31691265005705735037417580134400 (- 98) False = Finite False 7036874417766400 (- 46)"
  "make_double False 33006810229580170726090368614400 (- 102) False = Finite False 7328984137262611 (- 50)"
  "make_double False 33006810229580175511164972695552 (- 106) False = Finite False 7328984137262612 (- 54)"
  "make_double False 33006810229580177762964786380800 (- 102) False = Finite False 7328984137262612 (- 50)"
  "make_double False 34616671539649384210829287950244 1216 False = Infinity False"
  "make_double False 36967627457129799576098268278158 (- 105) False = Finite False 8208462233734126 (- 53)"
  "make_double False 36967627457129803035170234695680 (- 105) False = Finite False 8208462233734127 (- 53)"
  "make_double False 38029518006846882044901096161280 (- 100) False = Finite False 8444249301319680 (- 48)"
  "make_double False 41124787745751623356373860315369 (- 94) False = Finite False 4565768623815594 (- 41)"
  "make_double False 42248717093862618204785124259208 (- 108) False = Finite False 4690549847848071 (- 55)"
  "make_double False 42248717093862632040194553937920 (- 108) False = Finite False 4690549847848072 (- 55)"
  "make_double False 49510215344370266644447179571200 (- 101) False = Finite False 5496738102946959 (- 48)"
  "make_double False 49510215344370273681321597337600 (- 101) False = Finite False 5496738102946960 (- 48)"
  "make_double False 53714008484246993133440653062544 (- 100) False = Finite False 5963452896412202 (- 47)"
  "make_double False 57761917901765311085188376166400 (- 100) False = Finite False 6412861120104786 (- 47)"
  "make_double False 57761917901765318122062793932800 (- 100) False = Finite False 6412861120104787 (- 47)"
  "make_double False 63373075640793948060291830906880 (- 107) False = Finite False 7035824771772109 (- 54)"
  "make_double False 71305346262837903834189555302400 (- 96) False = Finite False 7916483719987200 (- 43)"
  "make_double False 207691874341393075626429335233525 (- 113) True = Finite False 5764607523034234 (- 58)"
  "make_double False 270391789400720842816400970282711 (- 114) True = Finite False 7504879756556916 (- 59)"
  "make_double False 324518553658426726783156020576256 (- 112) False = Finite False 4503599627370496 (- 56)"
  "make_double False 6249999999999999810832013828189760371715645471593897665515109434396678027222129720887271150294140741751719525998367650511383483398017405289961565065452492366938974441674373863198863331635445553430528 0 False = Finite False 5883593420661338 608"
  by (simp_all add: make_double_def round_shift_def Let_def bit_length_mantissas bit_length_shifted)

lemma isqrt_roots:
  "isqrt 8420761386965163298243887219752021304658205081600 = 2901854818381712785966500"
  "isqrt 14272476927059601406731288961908765629075630850048 = 3777893186295716514554183"
  by (rule isqrt_unique; simp)+

lemma sixteenth: "sixteenth = Finite False 4503599627370496 (- 56)"
  by (simp add: sixteenth_def double_of_nat_literals bit_length_mantissas make_double_roundings Let_def)

lemmas fp_eval = Entity_update_fp_def atRest_def vector_fp_def add_fp_def multiplyScalar_fp_def
  length_fp_def normalize_fp_def divideScalar_fp_def Let_def signed_mantissa_def sixteenth huge
  double_of_nat_literals bit_length_mantissas make_double_roundings isqrt_roots

lemma pushed:
  "pushed = \<lparr>position_fp = \<lparr>fp_x = Finite False 6412861120104787 (- 51), fp_y = Finite False 7328984137262612 (- 54), fp_z = Finite False 5496738102946960 (- 52)\<rparr>,
             velocity_fp = \<lparr>fp_x = Finite False 6412861120104787 (- 47), fp_y = Finite False 7328984137262612 (- 50), fp_z = Finite False 5496738102946960 (- 48)\<rparr>\<rparr>"
  by (simp add: pushed_def fp_eval)

lemma pushed_length: "length_fp (velocity_fp pushed) = Finite False 7036874417766401 (- 47)"
  by (simp add: pushed fp_eval)

lemma pushed_zero_dt:
  "Entity_update_fp pushed (vector_fp 1120 160 480) (double_of_nat 0) =
     \<lparr>position_fp = \<lparr>fp_x = Finite False 6412861120104787 (- 51), fp_y = Finite False 7328984137262612 (- 54), fp_z = Finite False 5496738102946960 (- 52)\<rparr>,
      velocity_fp = \<lparr>fp_x = Finite False 6412861120104786 (- 47), fp_y = Finite False 7328984137262611 (- 50), fp_z = Finite False 5496738102946959 (- 48)\<rparr>\<rparr>"
  by (simp add: pushed fp_eval)

lemma huge_step:
  "add_fp (velocity_fp atRest) (multiplyScalar_fp \<lparr>fp_x = huge, fp_y = double_of_nat 0, fp_z = double_of_nat 0\<rparr> sixteenth) =
     \<lparr>fp_x = Finite False 5883593420661338 608, fp_y = Finite False 0 0, fp_z = Finite False 0 0\<rparr>"
  by (simp add: fp_eval)

lemma huge_length: "length_fp \<lparr>fp_x = Finite False 5883593420661338 608, fp_y = Finite False 0 0, fp_z = Finite False 0 0\<rparr> = Infinity False"
  by (simp add: fp_eval)

lemma huge_update:
  "Entity_update_fp atRest \<lparr>fp_x = huge, fp_y = double_of_nat 0, fp_z = double_of_nat 0\<rparr> sixteenth =
     \<lparr>position_fp = vector_fp 0 0 0, velocity_fp = vector_fp 0 0 0\<rparr>"
  by (simp add: fp_eval)

section \<open>The claims\<close>

text \<open>
  \<^bold>\<open>C1\<close>. Speed cap. On doubles the bound fails. The entity \<open>pushed\<close> (an agent at rest,
  updated once with the acceleration \<open>(1120, 160, 480)\<close> and the time step \<open>1 / 16\<close>) stores the
  velocity \<open>(45.56611884328836, 6.509445549041192, 19.52833664712358)\<close>. Its length, as
  \<^verbatim>\<open>length()\<close> computes it, is \<open>50.00000000000001\<close>, the double that follows 50, and is greater
  than \<^verbatim>\<open>maxSpeed\<close>; the exact magnitude of the stored vector is greater than 50 as well.
\<close>

theorem speed_cap_exceeded:
  "velocity_fp pushed =
     \<lparr>fp_x = Finite False 6412861120104787 (- 47), fp_y = Finite False 7328984137262612 (- 50), fp_z = Finite False 5496738102946960 (- 48)\<rparr> \<and>
   length_fp (velocity_fp pushed) = Finite False 7036874417766401 (- 47) \<and>
   double_of_nat 50 = Finite False 7036874417766400 (- 47) \<and>
   double_greater (length_fp (velocity_fp pushed)) (double_of_nat 50) \<and>
   50\<^sup>2 < (double_value (fp_x (velocity_fp pushed)))\<^sup>2 + (double_value (fp_y (velocity_fp pushed)))\<^sup>2 +
         (double_value (fp_z (velocity_fp pushed)))\<^sup>2"
proof -
  have a: "velocity_fp pushed =
     \<lparr>fp_x = Finite False 6412861120104787 (- 47), fp_y = Finite False 7328984137262612 (- 50), fp_z = Finite False 5496738102946960 (- 48)\<rparr>"
    by (simp add: pushed)
  have b: "length_fp (velocity_fp pushed) = Finite False 7036874417766401 (- 47)"
    by (rule pushed_length)
  have c: "double_of_nat 50 = Finite False 7036874417766400 (- 47)"
    by (simp add: double_of_nat_literals)
  have d: "double_greater (length_fp (velocity_fp pushed)) (double_of_nat 50)"
    unfolding b c by (simp add: signed_mantissa_def)
  have e: "50\<^sup>2 < (double_value (fp_x (velocity_fp pushed)))\<^sup>2 + (double_value (fp_y (velocity_fp pushed)))\<^sup>2 +
         (double_value (fp_z (velocity_fp pushed)))\<^sup>2"
    by (simp add: pushed double_value_def signed_mantissa_def power2_eq_square power_int_minus field_simps)
  from a b c d e show ?thesis
    by (intro conjI)
qed

text \<open>
  \<^bold>\<open>C3\<close>. In-place update in index order. Let \<open>final\<close> be the population when the tick returns,
  and \<open>perceived\<close> the population in which every agent \<open>j < i\<close> is \<open>final ! j\<close> (its post-update
  state) and every other agent is still as the tick found it (its pre-update state). When
  the callback of agent \<open>i\<close> runs, the manager is exactly \<open>seen\<close>, the manager with the
  population \<open>perceived\<close>; agent \<open>i\<close> is updated to the result of the integrator on its
  pre-update state and the output of the policy on the input built from \<open>seen\<close>; the state
  handed to the policy is the pre-update state of agent \<open>i\<close>; the neighbour list handed to
  the policy is the tiered selection of the specification computed on \<open>perceived\<close>; and every
  entry of that list is the entry of an agent \<open>j \<noteq> i\<close>, carrying the position and the
  velocity of \<open>final ! j\<close> when \<open>j < i\<close> and those of \<open>entities mgr ! j\<close> when \<open>j > i\<close>, and its
  distance to the pre-update position of agent \<open>i\<close>.
\<close>

theorem in_place_update_order:
  assumes "i < length (entities mgr)"
  shows "let N = length (entities mgr);
             final = entities (EntityManager_update mgr dt);
             perceived = map (\<lambda>j. if j < i then final ! j else entities mgr ! j) [0..<N];
             seen = mgr\<lparr>entities := perceived\<rparr>;
             input = movementInput seen dt i;
             pos = position (entities mgr ! i)
         in updateEntities dt i mgr = seen \<and>
            final ! i = applyOutput (entities mgr ! i) (movementFunction mgr input) dt \<and>
            currentState input = getState (entities mgr ! i) \<and>
            (0 \<le> maxEntityPerception mgr \<longrightarrow> nearbyEntities input = spec_neighbors seen pos i) \<and>
            (\<forall>n \<in> set (nearbyEntities input). \<exists>j < N. j \<noteq> i \<and>
               nearby_position n = position (if j < i then final ! j else entities mgr ! j) \<and>
               nearby_velocity n = velocity (if j < i then final ! j else entities mgr ! j) \<and>
               distance n = distanceTo pos (position (if j < i then final ! j else entities mgr ! j)))"
proof -
  define N where "N = length (entities mgr)"
  define final where "final = entities (EntityManager_update mgr dt)"
  define perceived where "perceived = map (\<lambda>j. if j < i then final ! j else entities mgr ! j) [0..<N]"
  define seen where "seen = mgr\<lparr>entities := perceived\<rparr>"
  define input where "input = movementInput seen dt i"
  define pos where "pos = position (entities mgr ! i)"
  have iN: "i < N" using assms by (simp add: N_def)
  have es: "entities (updateEntities dt i mgr) = perceived"
    using updateEntities_perceived [of i mgr dt] assms by (simp add: perceived_def final_def N_def)
  have 1: "updateEntities dt i mgr = seen"
    by (subst updateEntities_fields) (simp add: es seen_def)
  have pi: "perceived ! i = entities mgr ! i" and pj: "\<And>j. j < N \<Longrightarrow> perceived ! j = (if j < i then final ! j else entities mgr ! j)"
    using iN by (simp_all add: perceived_def)
  have lp: "length perceived = N" by (simp add: perceived_def)
  have 2: "final ! i = applyOutput (entities mgr ! i) (movementFunction mgr input) dt"
    using updateEntities_nth [OF assms assms, of dt]
    by (simp add: final_def entities_EntityManager_update 1 input_def) (simp add: seen_def)
  have 3: "currentState input = getState (entities mgr ! i)"
    by (simp add: input_def movementInput_def Let_def seen_def pi)
  have nb: "nearbyEntities input = findNearbyEntities seen pos i"
    by (simp add: input_def movementInput_def Let_def seen_def pi getState_def clone_def pos_def)
  have 4: "0 \<le> maxEntityPerception mgr \<longrightarrow> nearbyEntities input = spec_neighbors seen pos i"
    using findNearbyEntities_spec [of seen pos i] by (simp add: nb seen_def)
  have 5: "\<exists>j < N. j \<noteq> i \<and>
               nearby_position n = position (if j < i then final ! j else entities mgr ! j) \<and>
               nearby_velocity n = velocity (if j < i then final ! j else entities mgr ! j) \<and>
               distance n = distanceTo pos (position (if j < i then final ! j else entities mgr ! j))"
    if "n \<in> set (nearbyEntities input)" for n
  proof -
    have "n \<in> set (findNearbyEntities seen pos i)"
      using that by (simp add: nb)
    then have "\<exists>j < length (entities seen). j \<noteq> i \<and> n = nearbyEntity pos (entities seen ! j)"
      by (rule findNearbyEntities_entries)
    then obtain j where j: "j < N" "j \<noteq> i" "n = nearbyEntity pos (perceived ! j)"
      by (auto simp: seen_def lp)
    have "nearby_position n = position (perceived ! j)" "nearby_velocity n = velocity (perceived ! j)"
      "distance n = distanceTo pos (position (perceived ! j))"
      by (simp_all add: j(3) nearbyEntity_def getPosition_def getVelocity_def clone_def)
    then show ?thesis using j(1,2) pj [OF j(1)] by (intro exI [of _ j]) simp
  qed
  show ?thesis
    unfolding Let_def N_def [symmetric] final_def [symmetric]
    unfolding perceived_def [symmetric]
    unfolding seen_def [symmetric]
    unfolding input_def [symmetric] pos_def [symmetric]
    using 1 2 3 4 5 by blast
qed

theorem in_place_update_order_witness:
  "(1::nat) < length (entities lineAgents) \<and> 0 \<le> maxEntityPerception lineAgents \<and>
   nearbyEntities (movementInput (updateEntities (1/2) 1 lineAgents) (1/2) 1) =
     [\<lparr>nearby_position = Vector3 10 0 0, nearby_velocity = Vector3 0 0 0, distance = 5\<rparr>,
      \<lparr>nearby_position = Vector3 (- 1) 0 0, nearby_velocity = Vector3 (- 2) 0 0, distance = 6\<rparr>] \<and>
   (0::nat) < 1 \<and>
   position (entities lineAgents ! 0) = Vector3 0 0 0 \<and>
   position (entities (EntityManager_update lineAgents (1/2)) ! 0) = Vector3 (- 1) 0 0 \<and>
   velocity (entities (EntityManager_update lineAgents (1/2)) ! 0) = Vector3 (- 2) 0 0 \<and>
   (1::nat) < 2 \<and>
   position (entities lineAgents ! 2) = Vector3 10 0 0 \<and>
   position (entities (EntityManager_update lineAgents (1/2)) ! 2) = Vector3 9 0 0"
proof -
  let ?final = "entities (EntityManager_update lineAgents (1/2))"
  have l0: "(0::nat) < length (entities lineAgents)" and l1: "(1::nat) < length (entities lineAgents)"
    and l2: "(2::nat) < length (entities lineAgents)"
    by (simp_all add: lineAgents_fields)
  have k: "0 \<le> maxEntityPerception lineAgents"
    by (simp add: lineAgents_fields)
  have f0: "position (?final ! 0) = Vector3 (- 1) 0 0" "velocity (?final ! 0) = Vector3 (- 2) 0 0"
    using in_place_update_order [OF l0, of "1/2"]
    by (simp_all add: Let_def lineAgents_fields lineAgents_moved)
  have f2: "position (?final ! 2) = Vector3 9 0 0"
    using in_place_update_order [OF l2, of "1/2"]
    by (simp add: Let_def lineAgents_fields lineAgents_moved)
  have p: "map (\<lambda>j. if j < 1 then ?final ! j else entities lineAgents ! j) [0..<length (entities lineAgents)]
            = [?final ! 0, new_Entity (Vector3 5 0 0) None, new_Entity (Vector3 10 0 0) None]"
    by (simp add: lineAgents_fields upt_rec)
  have n0: "nearbyEntity (Vector3 5 0 0) (?final ! 0) =
              \<lparr>nearby_position = Vector3 (- 1) 0 0, nearby_velocity = Vector3 (- 2) 0 0, distance = 6\<rparr>"
    by (simp add: nearbyEntity_def getPosition_def getVelocity_def clone_def f0)
  have n2: "nearbyEntity (Vector3 5 0 0) (new_Entity (Vector3 10 0 0) None) =
              \<lparr>nearby_position = Vector3 10 0 0, nearby_velocity = Vector3 0 0 0, distance = 5\<rparr>"
    by (simp add: nearbyEntity_def getPosition_def getVelocity_def clone_def new_Entity_def)
  have pos: "position (entities lineAgents ! 1) = Vector3 5 0 0"
    by (simp add: lineAgents_fields new_Entity_def clone_def)
  have s: "spec_neighbors
             (lineAgents\<lparr>entities := [?final ! 0, new_Entity (Vector3 5 0 0) None,
                                       new_Entity (Vector3 10 0 0) None]\<rparr>) (Vector3 5 0 0) 1 =
     [\<lparr>nearby_position = Vector3 10 0 0, nearby_velocity = Vector3 0 0 0, distance = 5\<rparr>,
      \<lparr>nearby_position = Vector3 (- 1) 0 0, nearby_velocity = Vector3 (- 2) 0 0, distance = 6\<rparr>]"
    by (simp add: spec_neighbors_def spec_closeTier_def spec_outerTier_def otherEntities_def
        Let_def lineAgents_fields n0 n2)
  let ?seen = "lineAgents\<lparr>entities := [?final ! 0, new_Entity (Vector3 5 0 0) None,
                                          new_Entity (Vector3 10 0 0) None]\<rparr>"
  note t = in_place_update_order [OF l1, of "1/2", unfolded Let_def p pos]
  have a: "updateEntities (1/2) 1 lineAgents = ?seen"
    using t by blast
  have b: "nearbyEntities (movementInput ?seen (1/2) 1) = spec_neighbors ?seen (Vector3 5 0 0) 1"
    using t k by blast
  have n: "nearbyEntities (movementInput (updateEntities (1/2) 1 lineAgents) (1/2) 1) =
     [\<lparr>nearby_position = Vector3 10 0 0, nearby_velocity = Vector3 0 0 0, distance = 5\<rparr>,
      \<lparr>nearby_position = Vector3 (- 1) 0 0, nearby_velocity = Vector3 (- 2) 0 0, distance = 6\<rparr>]"
    unfolding a b s ..
  have e0: "position (entities lineAgents ! 0) = Vector3 0 0 0"
    and e2: "position (entities lineAgents ! 2) = Vector3 10 0 0"
    by (simp_all add: lineAgents_fields new_Entity_def clone_def)
  have c: "(0::nat) < 1" "(1::nat) < 2"
    by simp_all
  from l1 k n c(1) e0 f0 c(2) e2 f2 show ?thesis
    by (intro conjI)
qed

text \<open>
  \<^bold>\<open>C5\<close>. Integrator. On doubles the rescaling fails when the length overflows. From rest, with
  the acceleration \<open>(1e200, 0, 0)\<close> and the time step \<open>1 / 16\<close>, the velocity before the cap is
  \<open>w = (6.25e198, 0, 0)\<close>; \<^verbatim>\<open>length()\<close> squares it, which overflows, and returns \<open>Infinity\<close>;
  that is greater than 50, \<^verbatim>\<open>normalize()\<close> multiplies by \<open>1 / Infinity = 0\<close>, and the velocity
  stored is \<open>(0, 0, 0)\<close>: its magnitude is 0, not 50, and the direction of \<open>w\<close> is lost. The
  position is then advanced by that stored velocity, and stays at the origin.
\<close>

theorem integrator_overflow:
  "let acc = \<lparr>fp_x = huge, fp_y = double_of_nat 0, fp_z = double_of_nat 0\<rparr>;
       w = add_fp (velocity_fp atRest) (multiplyScalar_fp acc sixteenth);
       e' = Entity_update_fp atRest acc sixteenth
   in w = \<lparr>fp_x = Finite False 5883593420661338 608, fp_y = Finite False 0 0, fp_z = Finite False 0 0\<rparr> \<and>
      length_fp w = Infinity False \<and>
      double_greater (length_fp w) (double_of_nat 50) \<and>
      velocity_fp e' = vector_fp 0 0 0 \<and>
      length_fp (velocity_fp e') = double_of_nat 0 \<and>
      position_fp e' = vector_fp 0 0 0"
proof -
  let ?acc = "\<lparr>fp_x = huge, fp_y = double_of_nat 0, fp_z = double_of_nat 0\<rparr>"
  let ?w = "add_fp (velocity_fp atRest) (multiplyScalar_fp ?acc sixteenth)"
  let ?e = "Entity_update_fp atRest ?acc sixteenth"
  have a: "?w = \<lparr>fp_x = Finite False 5883593420661338 608, fp_y = Finite False 0 0, fp_z = Finite False 0 0\<rparr>"
    by (rule huge_step)
  have b: "length_fp ?w = Infinity False"
    unfolding huge_step by (rule huge_length)
  have c: "double_greater (length_fp ?w) (double_of_nat 50)"
    unfolding b by (simp add: double_of_nat_literals)
  have d: "velocity_fp ?e = vector_fp 0 0 0"
    unfolding huge_update by simp
  have e: "length_fp (velocity_fp ?e) = double_of_nat 0"
    unfolding huge_update by (simp add: fp_eval)
  have f: "position_fp ?e = vector_fp 0 0 0"
    unfolding huge_update by simp
  from a b c d e f show ?thesis
    unfolding Let_def by (intro conjI)
qed

text \<open>
  \<^bold>\<open>C6\<close>. Zero time step. On doubles a tick with \<open>dt = 0\<close> is not a no-op. (1) The entity \<open>pushed\<close>
  stores a capped velocity whose computed length is \<open>50.00000000000001\<close>; an update with
  \<open>dt = 0\<close> (same acceleration) leaves the position as it is but normalises the velocity
  again, and stores \<open>(45.56611884328835, 6.5094455490411915, 19.528336647123577)\<close>: each
  component changes in its last bit. (2) A velocity component \<open>-0\<close> becomes \<open>+0\<close>, since
  \<open>-0 + 1 * 0 = +0\<close>. (3) An infinite acceleration component gives \<open>Infinity * 0 = NaN\<close>, and
  the velocity and the position of an entity at rest become \<open>NaN\<close>.
\<close>

theorem zero_dt_changes_velocity:
  "(let e' = Entity_update_fp pushed (vector_fp 1120 160 480) (double_of_nat 0)
    in velocity_fp pushed =
         \<lparr>fp_x = Finite False 6412861120104787 (- 47), fp_y = Finite False 7328984137262612 (- 50), fp_z = Finite False 5496738102946960 (- 48)\<rparr> \<and>
       velocity_fp e' =
         \<lparr>fp_x = Finite False 6412861120104786 (- 47), fp_y = Finite False 7328984137262611 (- 50), fp_z = Finite False 5496738102946959 (- 48)\<rparr> \<and>
       velocity_fp e' \<noteq> velocity_fp pushed \<and>
       position_fp e' = position_fp pushed) \<and>
   (let e = atRest\<lparr>velocity_fp := \<lparr>fp_x = Finite True 0 0, fp_y = double_of_nat 0, fp_z = double_of_nat 0\<rparr>\<rparr>;
        e' = Entity_update_fp e (vector_fp 1 0 0) (double_of_nat 0)
    in fp_x (velocity_fp e) = Finite True 0 0 \<and> fp_x (velocity_fp e') = Finite False 0 0) \<and>
   (let acc = \<lparr>fp_x = Infinity False, fp_y = double_of_nat 0, fp_z = double_of_nat 0\<rparr>;
        e' = Entity_update_fp atRest acc (double_of_nat 0)
    in fp_x (velocity_fp atRest) = Finite False 0 0 \<and> fp_x (velocity_fp e') = NaN \<and>
       fp_x (position_fp e') = NaN)"
proof -
  have 1: "let e' = Entity_update_fp pushed (vector_fp 1120 160 480) (double_of_nat 0)
    in velocity_fp pushed =
         \<lparr>fp_x = Finite False 6412861120104787 (- 47), fp_y = Finite False 7328984137262612 (- 50), fp_z = Finite False 5496738102946960 (- 48)\<rparr> \<and>
       velocity_fp e' =
         \<lparr>fp_x = Finite False 6412861120104786 (- 47), fp_y = Finite False 7328984137262611 (- 50), fp_z = Finite False 5496738102946959 (- 48)\<rparr> \<and>
       velocity_fp e' \<noteq> velocity_fp pushed \<and>
       position_fp e' = position_fp pushed"
    unfolding pushed_zero_dt Let_def by (simp add: pushed)
  have 2: "let e = atRest\<lparr>velocity_fp := \<lparr>fp_x = Finite True 0 0, fp_y = double_of_nat 0, fp_z = double_of_nat 0\<rparr>\<rparr>;
        e' = Entity_update_fp e (vector_fp 1 0 0) (double_of_nat 0)
    in fp_x (velocity_fp e) = Finite True 0 0 \<and> fp_x (velocity_fp e') = Finite False 0 0"
    by (simp add: fp_eval)
  have 3: "let acc = \<lparr>fp_x = Infinity False, fp_y = double_of_nat 0, fp_z = double_of_nat 0\<rparr>;
        e' = Entity_update_fp atRest acc (double_of_nat 0)
    in fp_x (velocity_fp atRest) = Finite False 0 0 \<and> fp_x (velocity_fp e') = NaN \<and>
       fp_x (position_fp e') = NaN"
    by (simp add: fp_eval)
  from 1 2 3 show ?thesis by (intro conjI)
qed

text \<open>
  \<^bold>\<open>C7\<close>. Patch merge. For a patch (a \<^verbatim>\<open>Map\<close>, so with distinct keys), \<^verbatim>\<open>updateRandomVariables\<close>
  gives every key of the patch the patch's value and leaves every other key as it was;
  this is what the tick does with a returned patch, and with no patch the variables are
  unchanged. Prior variables \<open>{a: 1}\<close> with patch \<open>{a: 2, b: 3}\<close> give \<open>{a: 2, b: 3}\<close>.
\<close>

theorem patch_merge:
  assumes "distinct (map fst patch)"
  shows "let merged = randomVariables (updateRandomVariables e patch)
         in (\<forall>key val. (key, val) \<in> set patch \<longrightarrow> map_of merged key = Some val) \<and>
            (\<forall>key. key \<notin> fst ` set patch \<longrightarrow> map_of merged key = map_of (randomVariables e) key) \<and>
            randomVariables
              (applyOutput e \<lparr>acceleration = acc, shouldUpdateRandomVariables = Some patch\<rparr> dt) = merged \<and>
            randomVariables
              (applyOutput e \<lparr>acceleration = acc, shouldUpdateRandomVariables = None\<rparr> dt) = randomVariables e \<and>
            randomVariables
              (updateRandomVariables (e\<lparr>randomVariables := [(''a'', 1)]\<rparr>) [(''a'', 2), (''b'', 3)])
              = [(''a'', 2), (''b'', 3)]"
proof -
  have m: "map_of (randomVariables (updateRandomVariables e patch)) =
             map_of (randomVariables e) ++ map_of patch"
    using assms by (simp add: updateRandomVariables_def map_of_fold_update map_of_rev_distinct)
  have 1: "\<forall>key val. (key, val) \<in> set patch \<longrightarrow>
             map_of (randomVariables (updateRandomVariables e patch)) key = Some val"
    using assms by (simp add: m map_add_def)
  have 2: "\<forall>key. key \<notin> fst ` set patch \<longrightarrow>
             map_of (randomVariables (updateRandomVariables e patch)) key = map_of (randomVariables e) key"
  proof (intro allI impI)
    fix key assume "key \<notin> fst ` set patch"
    then have "map_of patch key = None"
      by (simp add: map_of_eq_None_iff)
    then show "map_of (randomVariables (updateRandomVariables e patch)) key = map_of (randomVariables e) key"
      by (simp add: m map_add_def)
  qed
  have 3: "randomVariables
              (updateRandomVariables (e\<lparr>randomVariables := [(''a'', 1)]\<rparr>) [(''a'', 2), (''b'', 3)])
              = [(''a'', 2), (''b'', 3)]"
    by (simp add: updateRandomVariables_def)
  show ?thesis
    unfolding Let_def using 1 2 3 by (simp add: randomVariables_applyOutput)
qed

theorem patch_merge_witness:
  "distinct (map fst [(''a'', 2::real), (''b'', 3)]) \<and>
   (''b'', 3) \<in> set [(''a'', 2::real), (''b'', 3)] \<and>
   ''c'' \<notin> fst ` set [(''a'', 2::real), (''b'', 3)] \<and>
   (let e = (new_Entity (Vector3 0 50 0) None)\<lparr>randomVariables := [(''a'', 1), (''c'', 4)]\<rparr>;
        merged = randomVariables (updateRandomVariables e [(''a'', 2), (''b'', 3)])
    in map_of merged ''b'' = Some 3 \<and> map_of merged ''c'' = Some 4 \<and>
       merged = [(''a'', 2), (''c'', 4), (''b'', 3)])"
proof -
  have d: "distinct (map fst [(''a'', 2::real), (''b'', 3)])"
    by simp
  show ?thesis
    using patch_merge [OF d, of "(new_Entity (Vector3 0 50 0) None)\<lparr>randomVariables := [(''a'', 1), (''c'', 4)]\<rparr>"]
    by (simp add: Let_def updateRandomVariables_def)
qed

text \<open>
  \<^bold>\<open>C2\<close>. Tiered neighbour query. For every observer position, exclusion index, population,
  radius and cap \<open>K \<ge> 0\<close> (a cap is a maximal number of entries), the query returns the first
  \<open>min(K, 7)\<close> entries of the close tier in ascending distance (all of them if there are
  fewer), followed by the first \<open>K - taken\<close> entries of the outer tier in ascending distance
  (all of them if there are fewer), where a fractional count is rounded down as
  \<^verbatim>\<open>slice\<close> does; close-tier entries beyond the first \<open>min(K, 7)\<close> are dropped. Every entry
  of the first part has distance at most 20, every entry of the second part has distance
  above 20 and at most the radius, and within each part the distances are non-decreasing.
\<close>

theorem tiered_neighbor_query:
  assumes "0 \<le> maxEntityPerception mgr"
  shows "let K = maxEntityPerception mgr;
             closeSorted = sort_key distance (spec_closeTier mgr pos ex);
             outerSorted = sort_key distance (spec_outerTier mgr pos ex);
             taken = take (nat \<lfloor>min K 7\<rfloor>) closeSorted;
             fill = take (nat \<lfloor>K - real (length taken)\<rfloor>) outerSorted
         in findNearbyEntities mgr pos ex = taken @ fill \<and>
            length taken = min (nat \<lfloor>min K 7\<rfloor>) (length (spec_closeTier mgr pos ex)) \<and>
            length fill = min (nat \<lfloor>K - real (length taken)\<rfloor>) (length (spec_outerTier mgr pos ex)) \<and>
            sorted (map distance taken) \<and> sorted (map distance fill) \<and>
            (\<forall>n \<in> set taken. distance n \<le> 20) \<and>
            (\<forall>n \<in> set fill. 20 < distance n \<and> distance n \<le> perceptionRadius mgr)"
proof -
  define K where "K = maxEntityPerception mgr"
  define cs where "cs = sort_key distance (spec_closeTier mgr pos ex)"
  define os where "os = sort_key distance (spec_outerTier mgr pos ex)"
  define taken where "taken = take (nat \<lfloor>min K 7\<rfloor>) cs"
  define fill where "fill = take (nat \<lfloor>K - real (length taken)\<rfloor>) os"
  have 1: "findNearbyEntities mgr pos ex = taken @ fill"
    using findNearbyEntities_spec [OF assms]
    by (simp add: spec_neighbors_def Let_def K_def cs_def os_def taken_def fill_def)
  have 2: "length taken = min (nat \<lfloor>min K 7\<rfloor>) (length (spec_closeTier mgr pos ex))"
    by (simp add: taken_def cs_def min.commute)
  have 3: "length fill = min (nat \<lfloor>K - real (length taken)\<rfloor>) (length (spec_outerTier mgr pos ex))"
    by (simp add: fill_def os_def min.commute)
  have "sorted (map distance cs)" "sorted (map distance os)"
    by (simp_all add: cs_def os_def sorted_sort_key)
  then have 4: "sorted (map distance taken)" and 5: "sorted (map distance fill)"
    by (simp_all add: taken_def fill_def take_map [symmetric] sorted_wrt_take)
  have "set taken \<subseteq> set (spec_closeTier mgr pos ex)"
    unfolding taken_def cs_def using set_take_subset [of _ "sort_key distance (spec_closeTier mgr pos ex)"] by simp
  then have 6: "\<forall>n \<in> set taken. distance n \<le> 20"
    by (auto simp: spec_closeTier_def)
  have "set fill \<subseteq> set (spec_outerTier mgr pos ex)"
    unfolding fill_def os_def using set_take_subset [of _ "sort_key distance (spec_outerTier mgr pos ex)"] by simp
  then have 7: "\<forall>n \<in> set fill. 20 < distance n \<and> distance n \<le> perceptionRadius mgr"
    by (auto simp: spec_outerTier_def)
  show ?thesis
    unfolding Let_def K_def [symmetric] cs_def [symmetric] os_def [symmetric]
    unfolding taken_def [symmetric]
    unfolding fill_def [symmetric]
    using 1 2 3 4 5 6 7 by blast
qed

theorem tiered_neighbor_query_witness:
  "0 \<le> maxEntityPerception (flock 4) \<and>
   findNearbyEntities (flock 4) (Vector3 0 0 0) 0 = [seenAt 1, seenAt 2, seenAt 3] @ [seenAt 25] \<and>
   take (nat \<lfloor>min (maxEntityPerception (flock 4)) 7\<rfloor>)
     (sort_key distance (spec_closeTier (flock 4) (Vector3 0 0 0) 0)) = [seenAt 1, seenAt 2, seenAt 3] \<and>
   take (nat \<lfloor>maxEntityPerception (flock 4) - 3\<rfloor>)
     (sort_key distance (spec_outerTier (flock 4) (Vector3 0 0 0) 0)) = [seenAt 25] \<and>
   seenAt 3 \<in> set [seenAt 1, seenAt 2, seenAt 3] \<and> distance (seenAt 3) \<le> 20 \<and>
   seenAt 25 \<in> set [seenAt 25] \<and> 20 < distance (seenAt 25) \<and>
   distance (seenAt 25) \<le> perceptionRadius (flock 4)"
proof -
  have k: "0 \<le> maxEntityPerception (flock 4)"
    by simp
  show ?thesis
    using tiered_neighbor_query [OF k, of "Vector3 0 0 0" 0]
    by (simp add: flock_tiers flock_sorted Let_def flock_query_4)
qed

text \<open>
  \<^bold>\<open>C4\<close>. Perception cap and self-exclusion. For every observer, population and cap \<open>K \<ge> 0\<close>
  (a cap is a maximal number of entries), the length of the returned list is at most \<open>K\<close>;
  and the returned entries are entries of agents other than the one at the excluded
  index (as multisets: no agent accounts for two entries, the excluded agent for none).
\<close>

theorem perception_cap:
  "(0 \<le> maxEntityPerception mgr \<longrightarrow>
      real (length (findNearbyEntities mgr pos ex)) \<le> maxEntityPerception mgr) \<and>
   mset (findNearbyEntities mgr pos ex)
     \<subseteq># mset (map (nearbyEntity pos) (otherEntities (entities mgr) ex))"
  using findNearbyEntities_others length_spec_neighbors findNearbyEntities_spec by auto

theorem perception_cap_witness:
  "0 \<le> maxEntityPerception (flock 3) \<and>
   findNearbyEntities (flock 3) (Vector3 0 0 0) 0 = [seenAt 1, seenAt 2, seenAt 3] \<and>
   real (length (findNearbyEntities (flock 3) (Vector3 0 0 0) 0)) \<le> maxEntityPerception (flock 3) \<and>
   mset (findNearbyEntities (flock 3) (Vector3 0 0 0) 0)
     \<subseteq># mset (map (nearbyEntity (Vector3 0 0 0)) (otherEntities (entities (flock 3)) 0))"
  using perception_cap [of "flock 3" "Vector3 0 0 0" 0] flock_query_3 by simp

text \<open>
  \<^bold>\<open>C8\<close>. Orientation. As stated the claim fails for the instance matrices the renderer draws:
  when the updated speed is at most 0.1, \<^verbatim>\<open>updateInstancedMesh\<close> writes the identity
  orientation, not the previous one. Amended: after a tick, for every agent, the
  orientation is derived from the normalized velocity direction exactly when the updated
  speed exceeds 0.1; at or below that threshold the entity's own mesh keeps its previous
  orientation, and the instance matrix of the agent gets the identity orientation.
\<close>

theorem orientation_rule:
  assumes "j < length (entities mgr)"
  shows "let e' = entities (EntityManager_update mgr dt) ! j;
             derived = setFromUnitVectors (Vector3 0 1 0) (normalize_vec (velocity e'))
         in mesh_quaternion (mesh e') =
              (if length_vec (velocity e') > 0.1 then derived
               else mesh_quaternion (mesh (entities mgr ! j))) \<and>
            (\<forall>ms. instancedMesh mgr = Some ms \<and> length ms = length (entities mgr) \<longrightarrow>
               (\<exists>ms'. instancedMesh (EntityManager_update mgr dt) = Some ms' \<and>
                  length ms' = length ms \<and>
                  compose_quaternion (ms' ! j) =
                    (if length_vec (velocity e') > 0.1 then derived else identity_quat)))"
proof -
  define out where "out = movementFunction (updateEntities dt j mgr)
                            (movementInput (updateEntities dt j mgr) dt j)"
  have e': "entities (EntityManager_update mgr dt) ! j = applyOutput (entities mgr ! j) out dt"
    using assms by (simp add: entities_EntityManager_update updateEntities_nth out_def)
  have 1: "mesh_quaternion (mesh (entities (EntityManager_update mgr dt) ! j)) =
     (if length_vec (velocity (entities (EntityManager_update mgr dt) ! j)) > 0.1
      then setFromUnitVectors (Vector3 0 1 0)
             (normalize_vec (velocity (entities (EntityManager_update mgr dt) ! j)))
      else mesh_quaternion (mesh (entities mgr ! j)))"
    unfolding e' mesh_applyOutput velocity_applyOutput
    by (rule mesh_quaternion_Entity_update)
  have 2: "\<exists>ms'. instancedMesh (EntityManager_update mgr dt) = Some ms' \<and>
                  length ms' = length ms \<and>
                  compose_quaternion (ms' ! j) =
                    (if length_vec (velocity (entities (EntityManager_update mgr dt) ! j)) > 0.1
                     then setFromUnitVectors (Vector3 0 1 0)
                            (normalize_vec (velocity (entities (EntityManager_update mgr dt) ! j)))
                     else identity_quat)"
    if "instancedMesh mgr = Some ms" "length ms = length (entities mgr)" for ms
  proof -
    have "instancedMesh (EntityManager_update mgr dt) =
            Some (map instanceMatrix (entities (EntityManager_update mgr dt)))"
      using that by (rule instancedMesh_EntityManager_update)
    moreover have "length (entities (EntityManager_update mgr dt)) = length (entities mgr)"
      by (simp add: entities_EntityManager_update)
    ultimately show ?thesis
      using assms that by (simp add: compose_quaternion_instanceMatrix)
  qed
  show ?thesis
    unfolding Let_def using 1 2 by blast
qed

theorem orientation_rule_witness:
  "(0::nat) < length (entities braking) \<and>
   \<not> length_vec (velocity (entities (EntityManager_update braking 0.1) ! 0)) > 0.1 \<and>
   mesh_quaternion (mesh (entities (EntityManager_update braking 0.1) ! 0)) =
     mesh_quaternion (mesh (entities braking ! 0)) \<and>
   (\<exists>ms'. instancedMesh (EntityManager_update braking 0.1) = Some ms' \<and>
      compose_quaternion (ms' ! 0) = identity_quat)"
proof -
  have l: "(0::nat) < length (entities braking)"
    by (simp add: braking_before)
  have v: "\<not> length_vec (velocity (entities (EntityManager_update braking 0.1) ! 0)) > 0.1"
    by (simp add: braking_velocity)
  show ?thesis
    using orientation_rule [OF l, of "0.1"] l braking_before(3)
    by (auto simp: Let_def braking_velocity braking_before(1))
qed

theorem orientation_counterexample:
  "\<not> length_vec (velocity (entities (EntityManager_update braking 0.1) ! 0)) > 0.1 \<and>
   instancedMesh braking =
     Some [\<lparr>compose_position = Vector3 0 50 0,
            compose_quaternion = \<lparr>quat_x = 0, quat_y = 0, quat_z = - (1 / sqrt 2), quat_w = 1 / sqrt 2\<rparr>,
            compose_scale = Vector3 1 1 1\<rparr>] \<and>
   instancedMesh (EntityManager_update braking 0.1) =
     Some [\<lparr>compose_position = Vector3 0 50 0, compose_quaternion = identity_quat,
            compose_scale = Vector3 1 1 1\<rparr>] \<and>
   identity_quat \<noteq> \<lparr>quat_x = 0, quat_y = 0, quat_z = - (1 / sqrt 2), quat_w = 1 / sqrt 2\<rparr>"
  by (simp add: braking_velocity braking_before(3) braking_after) (simp add: identity_quat_def)

text \<open>
  \<^bold>\<open>C9\<close>. Population initialisation. With \<^verbatim>\<open>Math.random()\<close> in \<open>[0, 1)\<close>: \<^verbatim>\<open>createEntities(cnt)\<close>
  keeps the entities that exist and appends \<open>\<lceil>cnt\<rceil>\<close> new ones (\<open>N\<close> for \<open>cnt = N\<close>), each with
  horizontal coordinates between \<open>-0.4 * terrainSize\<close> and \<open>0.4 * terrainSize\<close>, height in
  \<open>[20, 100]\<close> and a small velocity. The randomize operation keeps the number of agents and
  every variable map and puts every agent in the same ranges; on a terrain of size 1000
  the horizontal coordinates are then in \<open>[-400, 400]\<close> and the height in \<open>[20, 100]\<close>.
\<close>

theorem population_initialization:
  assumes "\<forall>n. 0 \<le> rnd n \<and> rnd n < 1"
  shows "(case createEntities rnd k mgr cnt of
            (mgr', k') \<Rightarrow>
              take (length (entities mgr)) (entities mgr') = entities mgr \<and>
              length (entities mgr') = length (entities mgr) + nat \<lceil>cnt\<rceil> \<and>
              (\<forall>e \<in> set (drop (length (entities mgr)) (entities mgr')).
                 initialPosition (terrainSize mgr) (position e) \<and> initialVelocity (velocity e))) \<and>
         (case randomizeEntities rnd k mgr of
            (mgr', k') \<Rightarrow>
              length (entities mgr') = length (entities mgr) \<and>
              map randomVariables (entities mgr') = map randomVariables (entities mgr) \<and>
              (\<forall>e \<in> set (entities mgr').
                 initialPosition (terrainSize mgr) (position e) \<and> initialVelocity (velocity e)) \<and>
              (terrainSize mgr = 1000 \<longrightarrow>
                 (\<forall>e \<in> set (entities mgr').
                    - 400 \<le> vec_x (position e) \<and> vec_x (position e) \<le> 400 \<and>
                    - 400 \<le> vec_z (position e) \<and> vec_z (position e) \<le> 400 \<and>
                    20 \<le> vec_y (position e) \<and> vec_y (position e) \<le> 100)))"
proof
  obtain es' k' where c: "createEntities_loop rnd (terrainSize mgr) cnt 0 k (entities mgr) = (es', k')"
    by (cases "createEntities_loop rnd (terrainSize mgr) cnt 0 k (entities mgr)")
  show "case createEntities rnd k mgr cnt of
            (mgr', k') \<Rightarrow>
              take (length (entities mgr)) (entities mgr') = entities mgr \<and>
              length (entities mgr') = length (entities mgr) + nat \<lceil>cnt\<rceil> \<and>
              (\<forall>e \<in> set (drop (length (entities mgr)) (entities mgr')).
                 initialPosition (terrainSize mgr) (position e) \<and> initialVelocity (velocity e))"
    using createEntities_loop_result [OF assms, where tsize = "terrainSize mgr" and cnt = cnt and i = 0 and k = k and es = "entities mgr"] c
    by (simp add: createEntities_def freshEntity_def)
next
  obtain es' k' where r: "randomizeEntities_loop rnd (terrainSize mgr) k (entities mgr) = (es', k')"
    by (cases "randomizeEntities_loop rnd (terrainSize mgr) k (entities mgr)")
  show "case randomizeEntities rnd k mgr of
            (mgr', k') \<Rightarrow>
              length (entities mgr') = length (entities mgr) \<and>
              map randomVariables (entities mgr') = map randomVariables (entities mgr) \<and>
              (\<forall>e \<in> set (entities mgr').
                 initialPosition (terrainSize mgr) (position e) \<and> initialVelocity (velocity e)) \<and>
              (terrainSize mgr = 1000 \<longrightarrow>
                 (\<forall>e \<in> set (entities mgr').
                    - 400 \<le> vec_x (position e) \<and> vec_x (position e) \<le> 400 \<and>
                    - 400 \<le> vec_z (position e) \<and> vec_z (position e) \<le> 400 \<and>
                    20 \<le> vec_y (position e) \<and> vec_y (position e) \<le> 100))"
    using randomizeEntities_loop_result [OF assms, where tsize = "terrainSize mgr" and k = k and es = "entities mgr"] r
      initialPosition_1000
    by (auto simp: randomizeEntities_def)
qed

theorem population_initialization_witness:
  "(\<forall>n. 0 \<le> halves n \<and> halves n < 1) \<and>
   entities (fst (createEntities halves 0 (new_EntityManager calculateMovement 50 7 1000) 2)) =
     [new_Entity (Vector3 (- 400) 60 (- 400)) (Some (Vector3 0 (- 2.5) 0)),
      new_Entity (Vector3 (- 400) 60 (- 400)) (Some (Vector3 0 (- 2.5) 0))] \<and>
   terrainSize twoAgents = 1000 \<and>
   length (entities (fst (randomizeEntities halves 0 twoAgents))) = 2 \<and>
   entities (fst (randomizeEntities halves 0 twoAgents)) ! 1
     \<in> set (entities (fst (randomizeEntities halves 0 twoAgents))) \<and>
   - 400 \<le> vec_x (position (entities (fst (randomizeEntities halves 0 twoAgents)) ! 1)) \<and>
   vec_x (position (entities (fst (randomizeEntities halves 0 twoAgents)) ! 1)) \<le> 400 \<and>
   - 400 \<le> vec_z (position (entities (fst (randomizeEntities halves 0 twoAgents)) ! 1)) \<and>
   vec_z (position (entities (fst (randomizeEntities halves 0 twoAgents)) ! 1)) \<le> 400 \<and>
   20 \<le> vec_y (position (entities (fst (randomizeEntities halves 0 twoAgents)) ! 1)) \<and>
   vec_y (position (entities (fst (randomizeEntities halves 0 twoAgents)) ! 1)) \<le> 100"
proof -
  have t: "terrainSize twoAgents = 1000"
    by (simp add: twoAgents_def withEntities_def createInstancedMesh_def updateInstancedMesh_def
        new_EntityManager_def)
  have c: "entities (fst (createEntities halves 0 (new_EntityManager calculateMovement 50 7 1000) 2)) =
     [new_Entity (Vector3 (- 400) 60 (- 400)) (Some (Vector3 0 (- 2.5) 0)),
      new_Entity (Vector3 (- 400) 60 (- 400)) (Some (Vector3 0 (- 2.5) 0))]"
    by (simp del: createEntities_loop.simps
        add: createEntities_def new_EntityManager_def createEntities_halves)
  have l: "length (entities twoAgents) = 2"
    by (simp add: twoAgents_def)
  note p = population_initialization [OF halves_range, where k = 0 and mgr = twoAgents and cnt = 2]
  have l': "length (entities (fst (randomizeEntities halves 0 twoAgents))) = 2"
    using p l by (simp add: split_beta)
  then have m: "entities (fst (randomizeEntities halves 0 twoAgents)) ! 1
     \<in> set (entities (fst (randomizeEntities halves 0 twoAgents)))"
    by simp
  have "\<forall>e \<in> set (entities (fst (randomizeEntities halves 0 twoAgents))).
          - 400 \<le> vec_x (position e) \<and> vec_x (position e) \<le> 400 \<and>
          - 400 \<le> vec_z (position e) \<and> vec_z (position e) \<le> 400 \<and>
          20 \<le> vec_y (position e) \<and> vec_y (position e) \<le> 100"
    using p t by (simp add: split_beta)
  with m have "- 400 \<le> vec_x (position (entities (fst (randomizeEntities halves 0 twoAgents)) ! 1)) \<and>
   vec_x (position (entities (fst (randomizeEntities halves 0 twoAgents)) ! 1)) \<le> 400 \<and>
   - 400 \<le> vec_z (position (entities (fst (randomizeEntities halves 0 twoAgents)) ! 1)) \<and>
   vec_z (position (entities (fst (randomizeEntities halves 0 twoAgents)) ! 1)) \<le> 400 \<and>
   20 \<le> vec_y (position (entities (fst (randomizeEntities halves 0 twoAgents)) ! 1)) \<and>
   vec_y (position (entities (fst (randomizeEntities halves 0 twoAgents)) ! 1)) \<le> 100"
    by blast
  with halves_range c t l' m show ?thesis
    by blast
qed

text \<open>
  \<^bold>\<open>C10\<close>. Defensive copies. Let the heap hold the three objects of every entity, let \<open>inp\<close> be the
  \<^verbatim>\<open>MovementInput\<close> built for an agent and \<open>h1\<close> the heap after building it. No object
  reachable from \<open>inp\<close> is the position, velocity or variable map of an entity; so whatever
  a policy writes into the objects of its input (heap \<open>h2\<close>), every entity's stored position,
  velocity and variables are what they were. The state of \<open>inp\<close> holds the agent's own
  position, velocity and variables, and each neighbour entry the position and velocity of
  some entity, as copies.
\<close>

theorem defensive_copies:
  assumes "\<forall>e \<in> set es. allocated h e"
    and "movementInput_heap h es radius maxPerception dt index = (inp, h1)"
    and "mutatesOnly inp h1 h2"
  shows "(\<forall>e \<in> set es. position_ref e \<notin> vectorRefs inp \<and> velocity_ref e \<notin> vectorRefs inp \<and>
                         randomVariables_ref e \<notin> mapRefs inp) \<and>
         (\<forall>e \<in> set es. vectors h2 (position_ref e) = vectors h (position_ref e) \<and>
                         vectors h2 (velocity_ref e) = vectors h (velocity_ref e) \<and>
                         maps h2 (randomVariables_ref e) = maps h (randomVariables_ref e)) \<and>
         (index < length es \<longrightarrow>
            vectors h1 (state_position_ref (currentState_refs inp)) = vectors h (position_ref (es ! index)) \<and>
            vectors h1 (state_velocity_ref (currentState_refs inp)) = vectors h (velocity_ref (es ! index)) \<and>
            maps h1 (state_randomVariables_ref (currentState_refs inp)) =
              maps h (randomVariables_ref (es ! index))) \<and>
         (\<forall>n \<in> set (nearbyEntities_refs inp).
            \<exists>e \<in> set es. vectors h1 (nearby_position_ref n) = vectors h (position_ref e) \<and>
                           vectors h1 (nearby_velocity_ref n) = vectors h (velocity_ref e))"
proof -
  note f = movementInput_heap_fresh [OF assms(2)]
  have nearby: "\<forall>n \<in> set (nearbyEntities_refs inp).
            \<exists>e \<in> set es. vectors h1 (nearby_position_ref n) = vectors h (position_ref e) \<and>
                           vectors h1 (nearby_velocity_ref n) = vectors h (velocity_ref e)"
    using movementInput_heap_nearby [OF assms(2,1)] by (simp add: copyOf_def)
  have notin: "position_ref e \<notin> vectorRefs inp \<and> velocity_ref e \<notin> vectorRefs inp \<and>
               randomVariables_ref e \<notin> mapRefs inp" if "e \<in> set es" for e
  proof -
    have "allocated h e" using assms(1) that by blast
    then show ?thesis using f(2) by (auto simp: allocated_def)
  qed
  have kept: "vectors h2 (position_ref e) = vectors h (position_ref e) \<and>
              vectors h2 (velocity_ref e) = vectors h (velocity_ref e) \<and>
              maps h2 (randomVariables_ref e) = maps h (randomVariables_ref e)" if "e \<in> set es" for e
  proof -
    have a: "allocated h e" using assms(1) that by blast
    then have "position_ref e < nextRef h1" "velocity_ref e < nextRef h1" "randomVariables_ref e < nextRef h1"
      using f(1) by (auto simp: allocated_def extends_def)
    then have "vectors h2 (position_ref e) = vectors h1 (position_ref e)"
      "vectors h2 (velocity_ref e) = vectors h1 (velocity_ref e)"
      "maps h2 (randomVariables_ref e) = maps h1 (randomVariables_ref e)"
      using assms(3) notin [OF that] by (simp_all add: mutatesOnly_def)
    then show ?thesis using a f(1) by (simp add: allocated_def extends_def)
  qed
  have copies: "vectors h1 (state_position_ref (currentState_refs inp)) = vectors h (position_ref (es ! index)) \<and>
            vectors h1 (state_velocity_ref (currentState_refs inp)) = vectors h (velocity_ref (es ! index)) \<and>
            maps h1 (state_randomVariables_ref (currentState_refs inp)) =
              maps h (randomVariables_ref (es ! index))" if "index < length es"
    using movementInput_heap_state [OF assms(2)] assms(1) that by simp
  show ?thesis using notin kept copies nearby by blast
qed

theorem defensive_copies_witness:
  "(let inp = fst (movementInput_heap twoObjectsHeap twoObjects 50 7 0.1 0);
        h1 = snd (movementInput_heap twoObjectsHeap twoObjects 50 7 0.1 0);
        scribbled = state_position_ref (currentState_refs inp);
        h2 = h1\<lparr>vectors := (vectors h1)(scribbled := Vector3 99 99 99)\<rparr>
    in (\<forall>e \<in> set twoObjects. allocated twoObjectsHeap e) \<and>
       mutatesOnly inp h1 h2 \<and>
       vectors h1 scribbled = Vector3 7 0 0 \<and> vectors h2 scribbled = Vector3 99 99 99 \<and>
       nearbyEntities_refs inp =
         [\<lparr>nearby_position_ref = 9, nearby_velocity_ref = 10, nearby_distance = 6\<rparr>] \<and>
       twoObjects ! 0 \<in> set twoObjects \<and> (0::nat) < length twoObjects \<and>
       vectors h2 (position_ref (twoObjects ! 0)) = Vector3 7 0 0)"
proof -
  define inp where "inp = fst (movementInput_heap twoObjectsHeap twoObjects 50 7 0.1 0)"
  define h1 where "h1 = snd (movementInput_heap twoObjectsHeap twoObjects 50 7 0.1 0)"
  define h2 where "h2 = h1\<lparr>vectors := (vectors h1)(state_position_ref (currentState_refs inp) := Vector3 99 99 99)\<rparr>"
  have a: "\<forall>e \<in> set twoObjects. allocated twoObjectsHeap e"
    by (simp add: twoObjects_def twoObjectsHeap_def allocated_def)
  have m: "movementInput_heap twoObjectsHeap twoObjects 50 7 0.1 0 = (inp, h1)"
    by (simp add: inp_def h1_def)
  have mu: "mutatesOnly inp h1 h2"
    by (simp add: mutatesOnly_def h2_def vectorRefs_def)
  have l: "(0::nat) < length twoObjects" and i: "twoObjects ! 0 \<in> set twoObjects"
    by (simp_all add: twoObjects_def)
  note d = defensive_copies [OF a m mu]
  have p0: "vectors twoObjectsHeap (position_ref (twoObjects ! 0)) = Vector3 7 0 0"
    by (simp add: twoObjects_def twoObjectsHeap_def)
  have s: "vectors h1 (state_position_ref (currentState_refs inp)) = Vector3 7 0 0"
    using d l p0 by simp
  have k: "vectors h2 (position_ref (twoObjects ! 0)) = Vector3 7 0 0"
    using d i p0 by simp
  have w: "vectors h2 (state_position_ref (currentState_refs inp)) = Vector3 99 99 99"
    by (simp add: h2_def)
  have n: "nearbyEntities_refs inp =
         [\<lparr>nearby_position_ref = 9, nearby_velocity_ref = 10, nearby_distance = 6\<rparr>]"
    by (simp add: inp_def twoObjects_nearby)
  show ?thesis
    unfolding Let_def inp_def [symmetric] h1_def [symmetric]
    unfolding h2_def [symmetric]
    using a mu s w i l k n by blast
qed

end
